theory Spec2Isabelle
  imports Complex_Main "HOL-Library.Sublist"
begin

section \<open>Shared data declarations (types.ts)\<close>

text \<open>
  The interfaces of the type declaration file, as records. An optional property
  (\<^verbatim>\<open>password?: string\<close>) is an \<open>option\<close>: \<open>None\<close> stands for \<^verbatim>\<open>undefined\<close>.
  Field names that several interfaces share (\<^verbatim>\<open>id\<close>, \<^verbatim>\<open>name\<close>) carry a prefix, since
  \<open>id\<close> is a constant of HOL and a theory has one selector per name.
\<close>

datatype os_kind = linux | windows | macos

datatype auth_method = password_auth | key_auth

record SSHKey =
  key_id :: string
  key_name :: string
  content :: string
  privateKeyPath :: "string option"
  passphrase :: "string option"

record Server =
  srv_id :: string
  srv_name :: string
  host :: string
  username :: string
  password :: "string option"
  port :: nat
  os :: os_kind
  sshKeyId :: "string option"
  preferredAuthMethod :: "auth_method option"
  isLocal :: "bool option"

datatype ConnectionStatus = DISCONNECTED | CONNECTING | CONNECTED | ERROR

record Session =
  ses_id :: string
  serverId :: string
  ses_name :: string
  color :: string
  ses_server :: "Server option"


section \<open>Session registry (App: the tabs and the active-session pointer)\<close>

text \<open>
  The App component keeps \<^verbatim>\<open>sessions\<close> and \<^verbatim>\<open>activeSessionId\<close> in two state cells. Each
  handler runs to completion inside one event-loop turn, so a handler is a function
  from the registry state to the next state. \<^verbatim>\<open>crypto.randomUUID()\<close> is an input of
  the handler that calls it.
\<close>

record registry =
  sessions :: "Session list"
  activeSessionId :: "string option"

definition initial_registry :: registry where
  "initial_registry = \<lparr>sessions = [], activeSessionId = None\<rparr>"

definition SESSION_COLORS :: "string list" where
  "SESSION_COLORS =
     [''#3b82f6'', ''#10b981'', ''#f59e0b'', ''#ef4444'', ''#8b5cf6'', ''#ec4899'', ''#06b6d4'']"

text \<open>\<^verbatim>\<open>Array.prototype.findIndex\<close>: the first index whose element satisfies the
  predicate; \<open>None\<close> is the result \<^verbatim>\<open>-1\<close>.\<close>

fun findIndex :: "('a \<Rightarrow> bool) \<Rightarrow> 'a list \<Rightarrow> nat option" where
  "findIndex p [] = None"
| "findIndex p (x # xs) =
     (if p x then Some 0 else map_option Suc (findIndex p xs))"

definition handleSelectServer :: "Server \<Rightarrow> string \<Rightarrow> registry \<Rightarrow> registry" where
  "handleSelectServer srv newSessionId st =
     (let color' = SESSION_COLORS ! (length (sessions st) mod length SESSION_COLORS);
          newSession = \<lparr>ses_id = newSessionId, serverId = srv_id srv, ses_name = srv_name srv,
                         color = color',
                         ses_server = (if isLocal srv = Some True then Some srv else None)\<rparr>
      in st\<lparr>sessions := sessions st @ [newSession], activeSessionId := Some newSessionId\<rparr>)"

definition handleCloseSession :: "string \<Rightarrow> registry \<Rightarrow> registry" where
  "handleCloseSession i st =
     (case findIndex (\<lambda>s. ses_id s = i) (sessions st) of
        None \<Rightarrow> st
      | Some idx \<Rightarrow>
          (let newSessions = filter (\<lambda>s. ses_id s \<noteq> i) (sessions st);
               st' = st\<lparr>sessions := newSessions\<rparr>
           in if activeSessionId st = Some i
              then (if length newSessions > 0
                    then st'\<lparr>activeSessionId :=
                             Some (ses_id (newSessions ! nat (max 0 (int idx - 1))))\<rparr>
                    else st'\<lparr>activeSessionId := None\<rparr>)
              else st'))"

text \<open>
  Selecting a session: the tab bar renders one tab per element of \<^verbatim>\<open>sessions\<close> and the
  click handler of a tab calls \<^verbatim>\<open>onSelectSession(session.id)\<close>, which is
  \<^verbatim>\<open>setActiveSessionId\<close>. A click is therefore identified by the position of the tab;
  the tab bar renders nothing when there is no session.
\<close>

definition onSelectSession :: "nat \<Rightarrow> registry \<Rightarrow> registry" where
  "onSelectSession k st =
     (if k < length (sessions st)
      then st\<lparr>activeSessionId := Some (ses_id (sessions st ! k))\<rparr>
      else st)"

datatype registry_op =
    OpenSession Server string
  | CloseSession string
  | SelectSession nat

fun registry_step :: "registry \<Rightarrow> registry_op \<Rightarrow> registry" where
  "registry_step st (OpenSession srv newSessionId) = handleSelectServer srv newSessionId st"
| "registry_step st (CloseSession i) = handleCloseSession i st"
| "registry_step st (SelectSession k) = onSelectSession k st"

definition run_registry :: "registry_op list \<Rightarrow> registry" where
  "run_registry ops = foldl registry_step initial_registry ops"

text \<open>The active-session pointer is empty or names a session of the list.\<close>

definition active_live :: "registry \<Rightarrow> bool" where
  "active_live st =
     (case activeSessionId st of
        None \<Rightarrow> True
      | Some a \<Rightarrow> a \<in> set (map ses_id (sessions st)))"


section \<open>Terminal component: connection state machine and transport calls\<close>

text \<open>
  One Terminal component instance owns one connection. Its state cells
  (\<^verbatim>\<open>status\<close>, \<^verbatim>\<open>sessionId\<close>) and refs (\<^verbatim>\<open>isConnectingRef\<close>, \<^verbatim>\<open>xtermRef\<close>) are the fields
  of a record; every callback the component registers (an effect body, an effect
  cleanup, the continuation of an awaited \<^verbatim>\<open>invoke\<close>, an event listener) is a function
  on that record, and the event loop is the list of callbacks it runs.

  \<^item> \<open>xterm\<close> is \<^verbatim>\<open>xtermRef.current\<close>: \<open>None\<close> while no terminal has been created,
    otherwise the terminal's \<^verbatim>\<open>(cols, rows)\<close>.
  \<^item> \<open>invocations\<close> records, in order, every \<^verbatim>\<open>invoke\<close> call made to the transport
    collaborator.
  \<^item> \<open>pending\<close> is the session id of the connect call whose promise has not settled.
  \<^item> \<open>cleanup\<close> is the cleanup function the connect effect returned, if any. The function
    is a closure over the \<^verbatim>\<open>status\<close> and \<^verbatim>\<open>sessionId\<close> of the render whose effect ran, so
    it is represented by these two captured values.
  \<^item> \<^verbatim>\<open>statusRef\<close> and \<^verbatim>\<open>sessionIdRef\<close> are copied from the state cells after every
    render; the model reads the state cells where the source reads these refs.
  \<^item> Writes to the display surface and to the console change neither the status, the
    latch nor the transport calls, and are left out.
\<close>

record connect_params =
  cp_session_id :: string
  cp_host :: string
  cp_port :: nat
  cp_username :: string
  cp_password :: "string option"
  ssh_key_path :: "string option"
  ssh_key_passphrase :: "string option"

datatype transport_call =
    pty_connect_local string nat nat
  | pty_connect connect_params
  | pty_resize string nat nat
  | pty_write string string
  | pty_disconnect string

record terminal =
  status :: ConnectionStatus
  sessionId :: "string option"
  isConnectingRef :: bool
  xterm :: "(nat \<times> nat) option"
  pending :: "string option"
  cleanup :: "(ConnectionStatus \<times> string option) option"
  invocations :: "transport_call list"

definition initial_terminal :: terminal where
  "initial_terminal =
     \<lparr>status = DISCONNECTED, sessionId = None, isConnectingRef = False, xterm = None,
      pending = None, cleanup = None, invocations = []\<rparr>"

text \<open>JavaScript truthiness of an optional string, and \<^verbatim>\<open>x || null\<close> on one.\<close>

definition truthy_str :: "string option \<Rightarrow> bool" where
  "truthy_str x = (case x of None \<Rightarrow> False | Some v \<Rightarrow> v \<noteq> [])"

definition or_null :: "string option \<Rightarrow> string option" where
  "or_null x = (if truthy_str x then x else None)"

definition invoke :: "transport_call \<Rightarrow> terminal \<Rightarrow> terminal" where
  "invoke c t = t\<lparr>invocations := invocations t @ [c]\<rparr>"

text \<open>The effect that creates the xterm instance; it returns at once when the
  container element is absent. The argument is the geometry of the new terminal.\<close>

definition init_xterm :: "(nat \<times> nat) option \<Rightarrow> terminal \<Rightarrow> terminal" where
  "init_xterm container t =
     (case container of None \<Rightarrow> t | Some g \<Rightarrow> t\<lparr>xterm := Some g\<rparr>)"

text \<open>\<^verbatim>\<open>connectToServer\<close> up to its \<^verbatim>\<open>await\<close>: the part that runs synchronously inside
  the effect.\<close>

definition connectToServer :: "Server \<Rightarrow> SSHKey list \<Rightarrow> string \<Rightarrow> terminal \<Rightarrow> terminal" where
  "connectToServer srv sshKeys newSessionId t =
     (let t1 = t\<lparr>status := CONNECTING\<rparr>;
          t2 = t1\<lparr>sessionId := Some newSessionId\<rparr>
      in if isLocal srv = Some True
         then (let cols = (case xterm t2 of None \<Rightarrow> 80 | Some (c, r) \<Rightarrow> if c = 0 then 80 else c);
                   rows = (case xterm t2 of None \<Rightarrow> 24 | Some (c, r) \<Rightarrow> if r = 0 then 24 else r)
               in (invoke (pty_connect_local newSessionId cols rows) t2)\<lparr>pending := Some newSessionId\<rparr>)
         else (let key = (if truthy_str (sshKeyId srv)
                          then find (\<lambda>k. Some (key_id k) = sshKeyId srv) sshKeys else None);
                   preferredMethod = (case preferredAuthMethod srv of
                                        None \<Rightarrow> password_auth | Some m \<Rightarrow> m);
                   params = \<lparr>cp_session_id = newSessionId, cp_host = host srv, cp_port = port srv,
                     cp_username = username srv,
                     cp_password = (if preferredMethod = password_auth
                                    then or_null (password srv) else None),
                     ssh_key_path = (if preferredMethod = key_auth
                                     then or_null (Option.bind key privateKeyPath) else None),
                     ssh_key_passphrase = (if preferredMethod = key_auth
                                     then or_null (Option.bind key passphrase) else None)\<rparr>
               in (invoke (pty_connect params) t2)\<lparr>pending := Some newSessionId\<rparr>))"

text \<open>
  The body of the connect effect (dependency list \<^verbatim>\<open>[server]\<close>). The two early returns
  give React no cleanup function; the run that passes the latch returns the cleanup
  closure, which captures the \<^verbatim>\<open>status\<close> and \<^verbatim>\<open>sessionId\<close> of its render. Before React
  runs the effect again it runs the cleanup of the previous run, which is the event
  \<open>Cleanup\<close> below; the model does not fix the order of the two events, so an early
  return leaves a cleanup that has not run yet in place.
\<close>

definition connect_effect :: "Server option \<Rightarrow> SSHKey list \<Rightarrow> string \<Rightarrow> terminal \<Rightarrow> terminal" where
  "connect_effect server sshKeys newSessionId t =
     (case server of
        None \<Rightarrow> t
      | Some srv \<Rightarrow>
          if xterm t = None then t
          else if isConnectingRef t then t
          else (connectToServer srv sshKeys newSessionId (t\<lparr>isConnectingRef := True\<rparr>))
                 \<lparr>cleanup := Some (status t, sessionId t)\<rparr>)"

text \<open>The continuation of \<^verbatim>\<open>connectToServer\<close> after the awaited connect call resolves.
  The argument is the geometry \<^verbatim>\<open>fit()\<close> establishes, or \<open>None\<close> when \<^verbatim>\<open>fit()\<close> throws
  (which is caught and only warned about).\<close>

definition connect_resolved :: "(nat \<times> nat) option \<Rightarrow> terminal \<Rightarrow> terminal" where
  "connect_resolved fit t =
     (case pending t of
        None \<Rightarrow> t
      | Some newSessionId \<Rightarrow>
          (let t1 = t\<lparr>pending := None, status := CONNECTED\<rparr>
           in if xterm t1 = None then t1
              else (case fit of
                      None \<Rightarrow> t1
                    | Some (c, r) \<Rightarrow> invoke (pty_resize newSessionId c r) (t1\<lparr>xterm := Some (c, r)\<rparr>))))"

text \<open>The \<^verbatim>\<open>catch\<close> branch: the awaited connect call rejected.\<close>

definition connect_rejected :: "string \<Rightarrow> terminal \<Rightarrow> terminal" where
  "connect_rejected err t =
     (case pending t of
        None \<Rightarrow> t
      | Some newSessionId \<Rightarrow> t\<lparr>pending := None, status := ERROR\<rparr>)"

text \<open>The \<^verbatim>\<open>pty-disconnect\<close> listener. It is registered by the effect that depends on
  \<^verbatim>\<open>sessionId\<close>, which returns at once while \<^verbatim>\<open>sessionId\<close> is null.\<close>

definition on_pty_disconnect :: "string \<Rightarrow> string \<Rightarrow> terminal \<Rightarrow> terminal" where
  "on_pty_disconnect payload_session_id payload_error t =
     (if truthy_str (sessionId t) \<and> Some payload_session_id = sessionId t
      then t\<lparr>status := ERROR\<rparr>
      else t)"

text \<open>The \<^verbatim>\<open>onData\<close> handler of the terminal (keystrokes).\<close>

definition onData :: "string \<Rightarrow> terminal \<Rightarrow> terminal" where
  "onData d t =
     (if truthy_str (sessionId t) \<and> status t = CONNECTED
      then invoke (pty_write (the (sessionId t)) d) t
      else t)"

text \<open>The quick-command button of the side panel.\<close>

definition handleQuickCommand :: "string \<Rightarrow> terminal \<Rightarrow> terminal" where
  "handleQuickCommand cmd t =
     (if truthy_str (sessionId t) \<and> status t = CONNECTED \<and> xterm t \<noteq> None
      then invoke (pty_write (the (sessionId t)) (cmd @ ''\<newline>'')) t
      else t)"

text \<open>The window \<^verbatim>\<open>resize\<close> listener, registered together with the xterm instance.\<close>

definition handleResize :: "(nat \<times> nat) option \<Rightarrow> terminal \<Rightarrow> terminal" where
  "handleResize fit t =
     (if xterm t = None then t
      else (case fit of
              None \<Rightarrow> t
            | Some (c, r) \<Rightarrow>
                (let t1 = t\<lparr>xterm := Some (c, r)\<rparr>
                 in if truthy_str (sessionId t1) \<and> c \<noteq> 0 \<and> r \<noteq> 0
                    then invoke (pty_resize (the (sessionId t1)) c r) t1
                    else t1)))"

text \<open>Running the cleanup function of the connect effect (React does so before the
  effect runs again and when the component is torn down).\<close>

definition run_cleanup :: "terminal \<Rightarrow> terminal" where
  "run_cleanup t =
     (case cleanup t of
        None \<Rightarrow> t
      | Some (captured_status, captured_sessionId) \<Rightarrow>
          (let t1 = t\<lparr>cleanup := None\<rparr>
           in if captured_status = CONNECTED \<and> truthy_str captured_sessionId
              then invoke (pty_disconnect (the captured_sessionId)) t1
              else t1))"

datatype terminal_event =
    InitXterm "(nat \<times> nat) option"
  | ConnectEffect "Server option" "SSHKey list" string
  | ConnectResolved "(nat \<times> nat) option"
  | ConnectRejected string
  | PtyDisconnect string string
  | Data string
  | QuickCommand string
  | WindowResize "(nat \<times> nat) option"
  | Cleanup

fun terminal_step :: "terminal \<Rightarrow> terminal_event \<Rightarrow> terminal" where
  "terminal_step t (InitXterm container) = init_xterm container t"
| "terminal_step t (ConnectEffect server sshKeys u) = connect_effect server sshKeys u t"
| "terminal_step t (ConnectResolved fit) = connect_resolved fit t"
| "terminal_step t (ConnectRejected err) = connect_rejected err t"
| "terminal_step t (PtyDisconnect i err) = on_pty_disconnect i err t"
| "terminal_step t (Data d) = onData d t"
| "terminal_step t (QuickCommand cmd) = handleQuickCommand cmd t"
| "terminal_step t (WindowResize fit) = handleResize fit t"
| "terminal_step t Cleanup = run_cleanup t"

definition run_terminal :: "terminal_event list \<Rightarrow> terminal" where
  "run_terminal evs = foldl terminal_step initial_terminal evs"

fun is_connect_call :: "transport_call \<Rightarrow> bool" where
  "is_connect_call (pty_connect_local i c r) = True"
| "is_connect_call (pty_connect ps) = True"
| "is_connect_call (pty_resize i c r) = False"
| "is_connect_call (pty_write i d) = False"
| "is_connect_call (pty_disconnect i) = False"

fun is_disconnect_call :: "transport_call \<Rightarrow> bool" where
  "is_disconnect_call (pty_disconnect i) = True"
| "is_disconnect_call (pty_connect_local i c r) = False"
| "is_disconnect_call (pty_connect ps) = False"
| "is_disconnect_call (pty_resize i c r) = False"
| "is_disconnect_call (pty_write i d) = False"

definition connect_calls :: "terminal \<Rightarrow> transport_call list" where
  "connect_calls t = filter is_connect_call (invocations t)"

definition disconnect_calls :: "terminal \<Rightarrow> transport_call list" where
  "disconnect_calls t = filter is_disconnect_call (invocations t)"


section \<open>JavaScript values and the environment of the AI gateway (aiService.ts)\<close>

text \<open>
  Values that come back from the network are JSON values; \<open>None\<close> of type
  \<open>json option\<close> is \<^verbatim>\<open>undefined\<close>. A number is kept as a rational: the code only ever
  tests a number for being zero. An object is the list of its properties, with distinct
  keys. Strings are lists of 8-bit code units (Latin-1).

  A function that can throw returns \<open>js_error + 'a\<close>, with \<open>Inl\<close> for the thrown
  value. JavaScript can throw any value, and the only thing the source ever does with
  a caught value is to read its \<^verbatim>\<open>message\<close>. A thrown value is therefore one of:
  \<^item> \<open>Error m\<close>: an \<^verbatim>\<open>Error\<close> object with the message \<open>m\<close>, as every \<^verbatim>\<open>throw\<close> of the
    source creates and as the platform raises (\<^verbatim>\<open>SyntaxError\<close> of \<^verbatim>\<open>JSON.parse\<close>, a failed
    \<^verbatim>\<open>fetch\<close>);
  \<^item> \<open>TypeError site\<close>: the error the engine raises at a place of this source, for
    reading a property of \<^verbatim>\<open>undefined\<close> or \<^verbatim>\<open>null\<close> or for calling what is not a
    function. The text of its message is the engine's and differs from place to
    place, so it is a function of the environment (\<open>type_error_message\<close> below);
  \<^item> \<open>NoMessage\<close>: any other value that is neither \<^verbatim>\<open>null\<close> nor \<^verbatim>\<open>undefined\<close> and has no
    \<^verbatim>\<open>message\<close> (a thrown string, say);
  \<^item> \<open>Nullish n\<close>: the value \<^verbatim>\<open>undefined\<close> or \<^verbatim>\<open>null\<close> itself.
\<close>

datatype json =
    JNull
  | JBool bool
  | JNum rat
  | JStr string
  | JArr "json list"
  | JObj "(string \<times> json) list"

datatype nullish = Undefined | Null

datatype type_error_site =
    PropertyOf nullish string
  | NotAFunction string

datatype js_error =
    Error string
  | TypeError type_error_site
  | NoMessage
  | Nullish nullish

text \<open>The \<^verbatim>\<open>TypeError\<close> of a method call \<^verbatim>\<open>v.name(...)\<close> on a value without that method;
  the last argument is the source text of the callee.\<close>

fun no_method :: "json option \<Rightarrow> string \<Rightarrow> string \<Rightarrow> js_error" where
  "no_method None name callee = TypeError (PropertyOf Undefined name)"
| "no_method (Some JNull) name callee = TypeError (PropertyOf Null name)"
| "no_method (Some v) name callee = TypeError (NotAFunction callee)"

fun truthy :: "json option \<Rightarrow> bool" where
  "truthy None = False"
| "truthy (Some JNull) = False"
| "truthy (Some (JBool b)) = b"
| "truthy (Some (JNum n)) = (n \<noteq> 0)"
| "truthy (Some (JStr s)) = (s \<noteq> [])"
| "truthy (Some (JArr xs)) = True"
| "truthy (Some (JObj kvs)) = True"

text \<open>Reading a data property \<^verbatim>\<open>v.k\<close>, for a key \<open>k\<close> that is not a built-in property
  of strings, arrays, numbers or booleans (the keys the source reads are
  \<^verbatim>\<open>response\<close>, \<^verbatim>\<open>markdown\<close>, \<^verbatim>\<open>suggestedCommand\<close>, \<^verbatim>\<open>choices\<close>, \<^verbatim>\<open>message\<close>, \<^verbatim>\<open>content\<close>
  and \<^verbatim>\<open>text\<close>).\<close>

fun get_prop :: "json option \<Rightarrow> string \<Rightarrow> js_error + json option" where
  "get_prop None k = Inl (TypeError (PropertyOf Undefined k))"
| "get_prop (Some JNull) k = Inl (TypeError (PropertyOf Null k))"
| "get_prop (Some (JObj kvs)) k = Inr (map_of kvs k)"
| "get_prop (Some v) k = Inr None"

text \<open>Optional chaining \<^verbatim>\<open>v?.k\<close>, and the index read \<^verbatim>\<open>v[0]\<close>.\<close>

fun opt_prop :: "json option \<Rightarrow> string \<Rightarrow> js_error + json option" where
  "opt_prop None k = Inr None"
| "opt_prop (Some JNull) k = Inr None"
| "opt_prop (Some v) k = get_prop (Some v) k"

fun get_index0 :: "json option \<Rightarrow> js_error + json option" where
  "get_index0 None = Inl (TypeError (PropertyOf Undefined ''0''))"
| "get_index0 (Some JNull) = Inl (TypeError (PropertyOf Null ''0''))"
| "get_index0 (Some (JArr xs)) = Inr (case xs of [] \<Rightarrow> None | x # _ \<Rightarrow> Some x)"
| "get_index0 (Some (JStr s)) = Inr (case s of [] \<Rightarrow> None | c # _ \<Rightarrow> Some (JStr [c]))"
| "get_index0 (Some (JObj kvs)) = Inr (map_of kvs ''0'')"
| "get_index0 (Some v) = Inr None"

text \<open>Sequencing of computations that can throw.\<close>

definition and_then :: "'e + 'a \<Rightarrow> ('a \<Rightarrow> 'e + 'b) \<Rightarrow> 'e + 'b" where
  "and_then r f = (case r of Inl e \<Rightarrow> Inl e | Inr v \<Rightarrow> f v)"

text \<open>A string inside a template literal: \<^verbatim>\<open>undefined\<close> prints as its name.\<close>

definition str_of :: "string option \<Rightarrow> string" where
  "str_of x = (case x of None \<Rightarrow> ''undefined'' | Some s \<Rightarrow> s)"

text \<open>A number inside a template literal (decimal digits).\<close>

fun show_nat :: "nat \<Rightarrow> string" where
  "show_nat n =
     (if n < 10 then [''0123456789'' ! n]
      else show_nat (n div 10) @ [''0123456789'' ! (n mod 10)])"

record AIProviderConfig =
  enabled :: bool
  apiKey :: "string option"
  baseUrl :: "string option"
  model :: string

text \<open>
  \<^verbatim>\<open>AppSettings\<close>. The provider identifier is a string (callers can and do pass
  identifiers outside \<^verbatim>\<open>AIProviderId\<close>, as the unknown-provider test does), and
  \<^verbatim>\<open>providers\<close> is the lookup \<^verbatim>\<open>settings.providers[id]\<close>, \<open>None\<close> for \<^verbatim>\<open>undefined\<close>.
\<close>

record AppSettings =
  activeProvider :: string
  providers :: "string \<Rightarrow> AIProviderConfig option"

record http_request =
  url :: string
  http_method :: string
  headers :: "(string \<times> string) list"
  body :: json

record http_response =
  ok :: bool
  http_status :: nat
  statusText :: string
  json_body :: "js_error + json"

datatype fetch_result = Rejected js_error | Response http_response

record gemini_request =
  g_apiKey :: "string option"
  g_model :: string
  contents :: string
  systemInstruction :: string
  responseMimeType :: string

text \<open>
  The environment of one gateway call: what \<^verbatim>\<open>fetch\<close> answers to a request (the field
  \<open>json_body\<close> of a response is the outcome of \<^verbatim>\<open>response.json()\<close>), what the Gemini SDK
  answers (the \<^verbatim>\<open>text\<close> of its response, or a thrown error; the constant response schema
  it is given is not represented), the built-in \<^verbatim>\<open>JSON.parse\<close> (which is handed whatever
  value the code passes), \<^verbatim>\<open>window.location.origin\<close>, and the message text the engine
  gives a \<^verbatim>\<open>TypeError\<close> at each place.
\<close>

record backend =
  fetch :: "http_request \<Rightarrow> fetch_result"
  generateContent :: "gemini_request \<Rightarrow> js_error + string option"
  JSON_parse :: "json option \<Rightarrow> js_error + json"
  origin :: string
  type_error_message :: "type_error_site \<Rightarrow> string"

text \<open>The calls that leave the gateway, in the order they are made.\<close>

datatype backend_call = Fetch http_request | GenerateContent gemini_request

type_synonym outcome = "backend_call list \<times> (js_error + json)"


section \<open>String functions of the platform and the regular expressions of the source\<close>

text \<open>White space as \<^verbatim>\<open>String.prototype.trim\<close> and the class \<^verbatim>\<open>\s\<close> see it, among the code
  units below 256: TAB, LF, VT, FF, CR, SPACE and NBSP.\<close>

definition is_ws :: "char \<Rightarrow> bool" where
  "is_ws c = (c \<in> set [CHR 0x09, CHR 0x0A, CHR 0x0B, CHR 0x0C, CHR 0x0D, CHR 0x20, CHR 0xA0])"

definition trim :: "string \<Rightarrow> string" where
  "trim s = rev (dropWhile is_ws (rev (dropWhile is_ws s)))"

text \<open>The class \<^verbatim>\<open>[A-Za-z]\<close>.\<close>

definition is_alpha :: "char \<Rightarrow> bool" where
  "is_alpha c =
     (let n = (of_char c :: nat) in (65 \<le> n \<and> n \<le> 90) \<or> (97 \<le> n \<and> n \<le> 122))"

text \<open>The first occurrence of a literal pattern: the text before it and the text after
  it.\<close>

fun split_at_first :: "string \<Rightarrow> string \<Rightarrow> (string \<times> string) option" where
  "split_at_first pat [] = (if pat = [] then Some ([], []) else None)"
| "split_at_first pat (c # cs) =
     (if prefix pat (c # cs) then Some ([], drop (length pat) (c # cs))
      else map_option (\<lambda>(b, a). (c # b, a)) (split_at_first pat cs))"

text \<open>\<^verbatim>\<open>s.replace(/pat/g, '')\<close> for a literal, non-empty pattern: every occurrence, found
  from the left without overlap, is removed. The counter is the number of characters
  of the current occurrence still to skip.\<close>

fun remove_from :: "nat \<Rightarrow> string \<Rightarrow> string \<Rightarrow> string" where
  "remove_from k pat [] = []"
| "remove_from k pat (c # cs) =
     (if 0 < k then remove_from (k - 1) pat cs
      else if pat \<noteq> [] \<and> prefix pat (c # cs) then remove_from (length pat - 1) pat cs
      else c # remove_from 0 pat cs)"

definition remove_all :: "string \<Rightarrow> string \<Rightarrow> string" where
  "remove_all pat s = remove_from 0 pat s"

definition fence :: string where
  \<open>fence = ''```''\<close>

definition fence_json :: string where
  \<open>fence_json = ''```json''\<close>

text \<open>
  Group 1 of the first match of \<^verbatim>\<open>/```(?:json)?\s*\n?([\s\S]*?)\n?```/\<close>. The match
  starts at the first fence; \<^verbatim>\<open>json\<close> and the white space after it are consumed greedily
  (none of their characters can start a fence, so backtracking never gives another
  result); the lazy group runs to the first following fence, without the line feed
  that may stand directly before it.
\<close>

definition codeBlockMatch :: "string \<Rightarrow> string option" where
  "codeBlockMatch s =
     (case split_at_first fence s of
        None \<Rightarrow> None
      | Some (before, rest) \<Rightarrow>
          (let rest1 = (if prefix ''json'' rest then drop 4 rest else rest);
               rest2 = dropWhile is_ws rest1
           in case split_at_first fence rest2 of
                None \<Rightarrow> None
              | Some (inner, after) \<Rightarrow>
                  Some (if inner \<noteq> [] \<and> last inner = CHR 0x0A then butlast inner else inner)))"

text \<open>
  The first match of \<^verbatim>\<open>/\{[\s\S]*?"markdown"[\s\S]*?\}/\<close>: from the first opening brace,
  lazily to the first \<^verbatim>\<open>"markdown"\<close> after it, lazily to the first closing brace after
  that.
\<close>

definition jsonMatch :: "string \<Rightarrow> string option" where
  \<open>jsonMatch s =
     (case dropWhile (\<lambda>c. c \<noteq> CHR ''{'') s of
        [] \<Rightarrow> None
      | b # rest \<Rightarrow>
          (case split_at_first ''"markdown"'' rest of
             None \<Rightarrow> None
           | Some (pre, post) \<Rightarrow>
               (case split_at_first ''}'' post of
                  None \<Rightarrow> None
                | Some (mid, after) \<Rightarrow> Some (b # pre @ ''"markdown"'' @ mid @ ''}''))))\<close>

text \<open>The first match of the greedy \<^verbatim>\<open>/\{[\s\S]*\}/\<close>: from the first opening brace to
  the last closing brace after it.\<close>

definition braceMatch :: "string \<Rightarrow> string option" where
  "braceMatch s =
     (let r = dropWhile (\<lambda>c. c \<noteq> CHR ''{'') s;
          m = rev (dropWhile (\<lambda>c. c \<noteq> CHR ''}'') (rev r))
      in if m = [] then None else Some m)"

text \<open>\<^verbatim>\<open>s.replace(/^.*?(?=\{|[A-Za-z])/s, '')\<close>: the shortest prefix that is followed by an
  opening brace or an ASCII letter is removed; a text with neither is left as it is.\<close>

definition strip_leading :: "string \<Rightarrow> string" where
  "strip_leading s =
     (let r = dropWhile (\<lambda>c. \<not> (c = CHR ''{'' \<or> is_alpha c)) s
      in if r = [] then s else r)"

text \<open>\<^verbatim>\<open>s.replace(/\/$/, '')\<close>.\<close>

definition strip_trailing_slash :: "string \<Rightarrow> string" where
  "strip_trailing_slash s = (if s \<noteq> [] \<and> last s = CHR ''/'' then butlast s else s)"


section \<open>Provider adapters\<close>

definition SYSTEM_PROMPT :: string where
  \<open>SYSTEM_PROMPT = ''\<newline>You are an expert Linux/Unix System Administrator and SSH assistant named "Nebula AI".\<newline>Your goal is to help the user manage servers, write shell commands, and debug terminal errors.\<newline>\<newline>Rules:\<newline>1. If the user asks for a command, provide the command clearly in a code block.\<newline>2. Keep explanations concise and technical but accessible.\<newline>3. If the user asks in Arabic, reply in Arabic.\<newline>4. You MUST return the response in strict JSON format.\<newline>5. JSON Structure: { "markdown": "string response with markdown", "suggestedCommand": "optional command string" }\<newline>''\<close>

text \<open>An \<^verbatim>\<open>AIResponse\<close> object literal; a property whose value is \<^verbatim>\<open>undefined\<close> is not
  listed.\<close>

definition AIResponse :: "json \<Rightarrow> json option \<Rightarrow> json" where
  "AIResponse md sc =
     JObj ((''markdown'', md) # (case sc of None \<Rightarrow> [] | Some v \<Rightarrow> [(''suggestedCommand'', v)]))"

definition or_default :: "string \<Rightarrow> string \<Rightarrow> string" where
  "or_default s d = (if s = [] then d else s)"

definition callGemini :: "backend \<Rightarrow> string \<Rightarrow> string option \<Rightarrow> string \<Rightarrow> outcome" where
  "callGemini env prompt key mdl =
     (let req = \<lparr>g_apiKey = key, g_model = or_default mdl ''gemini-2.5-flash'', contents = prompt,
                 systemInstruction = SYSTEM_PROMPT, responseMimeType = ''application/json''\<rparr>
      in ([GenerateContent req],
          and_then (generateContent env req)
            (\<lambda>txt. if \<not> truthy_str txt then Inl (Error ''Empty response'')
                   else JSON_parse env (Some (JStr (the txt))))))"

definition chat_body :: "string \<Rightarrow> string \<Rightarrow> json" where
  "chat_body mdl prompt =
     JObj [(''model'', JStr mdl),
           (''messages'',
              JArr [JObj [(''role'', JStr ''system''),
                          (''content'', JStr (SYSTEM_PROMPT @ '' Respond strictly in JSON.''))],
                    JObj [(''role'', JStr ''user''), (''content'', JStr prompt)]]),
           (''response_format'', JObj [(''type'', JStr ''json_object'')])]"

text \<open>\<^verbatim>\<open>data.choices[0]?.message?.content\<close>, handed to \<^verbatim>\<open>JSON.parse\<close>.\<close>

definition parse_first_choice :: "backend \<Rightarrow> json \<Rightarrow> js_error + json" where
  "parse_first_choice env data =
     and_then (get_prop (Some data) ''choices'') (\<lambda>choices.
     and_then (get_index0 choices) (\<lambda>first.
     and_then (opt_prop first ''message'') (\<lambda>msg.
     and_then (opt_prop msg ''content'') (\<lambda>c.
       JSON_parse env c))))"

definition callOpenAICompatible ::
    "backend \<Rightarrow> string \<Rightarrow> AIProviderConfig option \<Rightarrow> string \<Rightarrow> outcome" where
  "callOpenAICompatible env prompt config providerName =
     (case config of
        None \<Rightarrow> ([], Inl (TypeError (PropertyOf Undefined ''apiKey'')))
      | Some cfg \<Rightarrow>
          (let baseUrl' = (if providerName = ''grok''
                           then ''https://api.x.ai/v1/chat/completions''
                           else ''https://api.openai.com/v1/chat/completions'');
               req = \<lparr>url = baseUrl', http_method = ''POST'',
                      headers = [(''Content-Type'', ''application/json''),
                                 (''Authorization'', ''Bearer '' @ str_of (apiKey cfg))],
                      body = chat_body
                        (or_default (model cfg)
                           (if providerName = ''grok'' then ''grok-beta'' else ''gpt-4-turbo-preview''))
                        prompt\<rparr>
           in ([Fetch req],
               case fetch env req of
                 Rejected e \<Rightarrow> Inl e
               | Response response \<Rightarrow>
                   if \<not> ok response
                   then Inl (Error (''API returned '' @ show_nat (http_status response)))
                   else and_then (json_body response) (parse_first_choice env))))"

definition callOpenRouter :: "backend \<Rightarrow> string \<Rightarrow> AIProviderConfig option \<Rightarrow> outcome" where
  "callOpenRouter env prompt config =
     (case config of
        None \<Rightarrow> ([], Inl (TypeError (PropertyOf Undefined ''apiKey'')))
      | Some cfg \<Rightarrow>
          (let req = \<lparr>url = ''https://openrouter.ai/api/v1/chat/completions'', http_method = ''POST'',
                      headers = [(''Content-Type'', ''application/json''),
                                 (''Authorization'', ''Bearer '' @ str_of (apiKey cfg)),
                                 (''HTTP-Referer'', origin env),
                                 (''X-Title'', ''NebulaTerm AI'')],
                      body = chat_body (or_default (model cfg) ''openai/gpt-3.5-turbo'') prompt\<rparr>
           in ([Fetch req],
               case fetch env req of
                 Rejected e \<Rightarrow> Inl e
               | Response response \<Rightarrow>
                   if \<not> ok response
                   then Inl (Error (''OpenRouter API Error: '' @ show_nat (http_status response)))
                   else and_then (json_body response) (parse_first_choice env))))"

text \<open>The tail of \<^verbatim>\<open>callAnthropic\<close>: \<^verbatim>\<open>JSON.parse(content)\<close>, and in its \<^verbatim>\<open>catch\<close> the
  braces of the text (\<^verbatim>\<open>content.match\<close> exists on strings only).\<close>

definition parse_anthropic_content :: "backend \<Rightarrow> json option \<Rightarrow> js_error + json" where
  "parse_anthropic_content env c =
     (case JSON_parse env c of
        Inr v \<Rightarrow> Inr v
      | Inl e \<Rightarrow>
          (case c of
             Some (JStr s) \<Rightarrow>
               (case braceMatch s of
                  Some m \<Rightarrow> JSON_parse env (Some (JStr m))
                | None \<Rightarrow> Inr (AIResponse (JStr s) None))
           | _ \<Rightarrow> Inl (no_method c ''match'' ''content.match'')))"

definition callAnthropic :: "backend \<Rightarrow> string \<Rightarrow> AIProviderConfig option \<Rightarrow> outcome" where
  "callAnthropic env prompt config =
     (case config of
        None \<Rightarrow> ([], Inl (TypeError (PropertyOf Undefined ''apiKey'')))
      | Some cfg \<Rightarrow>
          (let req = \<lparr>url = ''https://api.anthropic.com/v1/messages'', http_method = ''POST'',
                      headers = [(''x-api-key'', str_of (apiKey cfg)),
                                 (''anthropic-version'', ''2023-06-01''),
                                 (''content-type'', ''application/json''),
                                 (''dangerously-allow-browser'', ''true'')],
                      body = JObj [(''model'', JStr (or_default (model cfg) ''claude-3-sonnet-20240229'')),
                                   (''max_tokens'', JNum 1024),
                                   (''system'', JStr (SYSTEM_PROMPT @ '' Respond strictly in JSON format.'')),
                                   (''messages'',
                                      JArr [JObj [(''role'', JStr ''user''), (''content'', JStr prompt)]])]\<rparr>
           in ([Fetch req],
               case fetch env req of
                 Rejected e \<Rightarrow> Inl e
               | Response response \<Rightarrow>
                   if \<not> ok response
                   then Inl (Error (''Anthropic API Error: '' @ statusText response))
                   else and_then (json_body response) (\<lambda>data.
                        and_then (get_prop (Some data) ''content'') (\<lambda>blocks.
                        and_then (get_index0 blocks) (\<lambda>first.
                        and_then (opt_prop first ''text'') (\<lambda>c.
                          parse_anthropic_content env c)))))))"


section \<open>The Ollama adapter and its response normalizer\<close>

text \<open>The test each strategy applies to a parsed value, inside its \<^verbatim>\<open>try\<close>: a
  \<^verbatim>\<open>TypeError\<close> (the parsed value is \<^verbatim>\<open>null\<close>) is caught and the strategy gives up.\<close>

definition accept_parsed :: "json \<Rightarrow> json option" where
  "accept_parsed parsed =
     (case get_prop (Some parsed) ''markdown'' of
        Inl e \<Rightarrow> None
      | Inr md \<Rightarrow>
          (case get_prop (Some parsed) ''suggestedCommand'' of
             Inl e \<Rightarrow> None
           | Inr sc \<Rightarrow>
               if truthy md \<or> sc \<noteq> None
               then Some (AIResponse (if truthy md then the md else JStr []) sc)
               else None))"

definition try_parse :: "backend \<Rightarrow> string \<Rightarrow> json option" where
  "try_parse env s =
     (case JSON_parse env (Some (JStr s)) of
        Inl e \<Rightarrow> None
      | Inr parsed \<Rightarrow> accept_parsed parsed)"

definition strategy1 :: "backend \<Rightarrow> string \<Rightarrow> json option" where
  "strategy1 env responseText = try_parse env responseText"

definition strategy2 :: "backend \<Rightarrow> string \<Rightarrow> json option" where
  "strategy2 env responseText =
     (case codeBlockMatch responseText of
        None \<Rightarrow> None
      | Some g \<Rightarrow> try_parse env (trim g))"

definition strategy3 :: "backend \<Rightarrow> string \<Rightarrow> json option" where
  "strategy3 env responseText =
     (case jsonMatch responseText of
        None \<Rightarrow> None
      | Some m \<Rightarrow> try_parse env m)"

definition fallback :: "string \<Rightarrow> json" where
  "fallback responseText =
     (let cleanResponse = trim (remove_all fence (remove_all fence_json (strip_leading responseText)))
      in AIResponse (JStr (if cleanResponse = [] then responseText else cleanResponse)) None)"

text \<open>The strategies in order, on the trimmed reply.\<close>

definition extract_response :: "backend \<Rightarrow> string \<Rightarrow> json" where
  "extract_response env responseText =
     (case strategy1 env responseText of
        Some r \<Rightarrow> r
      | None \<Rightarrow>
          (case strategy2 env responseText of
             Some r \<Rightarrow> r
           | None \<Rightarrow>
               (case strategy3 env responseText of
                  Some r \<Rightarrow> r
                | None \<Rightarrow> fallback responseText)))"

definition empty_response :: js_error where
  "empty_response =
     Error ''Ollama returned an empty response. Make sure the model is downloaded and running.''"

text \<open>\<^verbatim>\<open>callOllama\<close> from the point where \<^verbatim>\<open>data.response\<close> is a string: the emptiness
  check, the trim and the normalizer.\<close>

definition normalize_reply :: "backend \<Rightarrow> string \<Rightarrow> js_error + json" where
  "normalize_reply env raw =
     (if raw = [] \<or> trim raw = [] then Inl empty_response
      else Inr (extract_response env (trim raw)))"

text \<open>\<^verbatim>\<open>callOllama\<close> from the point where \<^verbatim>\<open>data\<close> has been read: a truthy
  \<^verbatim>\<open>data.response\<close> that is not a string has no \<^verbatim>\<open>trim\<close> method.\<close>

definition ollama_reply :: "backend \<Rightarrow> json \<Rightarrow> js_error + json" where
  "ollama_reply env data =
     and_then (get_prop (Some data) ''response'') (\<lambda>resp.
       if \<not> truthy resp then Inl empty_response
       else (case resp of
               Some (JStr raw) \<Rightarrow> normalize_reply env raw
             | _ \<Rightarrow> Inl (no_method resp ''trim'' ''data.response.trim'')))"

definition enhancedPrompt :: "string \<Rightarrow> string" where
  \<open>enhancedPrompt prompt =
     prompt @ ''\<newline>\<newline>IMPORTANT: You MUST respond with a valid JSON object in this exact format:\<newline>{\<newline>  "markdown": "your response here with markdown formatting",\<newline>  "suggestedCommand": "optional command if applicable, or null"\<newline>}\<newline>\<newline>Do not include any text before or after the JSON object. Only output the JSON.''\<close>

definition callOllama :: "backend \<Rightarrow> string \<Rightarrow> AIProviderConfig option \<Rightarrow> outcome" where
  "callOllama env prompt config =
     (case config of
        None \<Rightarrow> ([], Inl (TypeError (PropertyOf Undefined ''baseUrl'')))
      | Some cfg \<Rightarrow>
          (let baseUrl' = strip_trailing_slash
                 (if truthy_str (baseUrl cfg) then the (baseUrl cfg) else ''http://localhost:11434'');
               req = \<lparr>url = baseUrl' @ ''/api/generate'', http_method = ''POST'',
                      headers = [(''Content-Type'', ''application/json'')],
                      body = JObj [(''model'', JStr (or_default (model cfg) ''llama3'')),
                                   (''system'', JStr SYSTEM_PROMPT),
                                   (''prompt'', JStr (enhancedPrompt prompt)),
                                   (''stream'', JBool False),
                                   (''options'', JObj [(''temperature'', JNum (7 / 10)),
                                                     (''num_predict'', JNum 2048)])]\<rparr>
           in ([Fetch req],
               case fetch env req of
                 Rejected e \<Rightarrow> Inl e
               | Response response \<Rightarrow>
                   if \<not> ok response
                   then Inl (Error (''Ollama connection failed: '' @ show_nat (http_status response)
                                     @ '' '' @ statusText response))
                   else and_then (json_body response) (ollama_reply env))))"


section \<open>The gateway: askAI and autoCorrectAI\<close>

definition ask_prompt :: "string \<Rightarrow> string \<Rightarrow> string" where
  "ask_prompt query historyContext =
     ''\<newline>    Terminal Context (Last few lines):\<newline>    '' @ historyContext
       @ ''\<newline>    \<newline>    User Query:\<newline>    '' @ query @ ''\<newline>  ''"

definition correct_prompt :: "string \<Rightarrow> string" where
  \<open>correct_prompt command =
     ''The user typed: "'' @ command
       @ ''". If it has a syntax error, fix it. If valid, explain it. Return JSON with "markdown" and "suggestedCommand".''\<close>

text \<open>
  The \<^verbatim>\<open>switch\<close> of \<^verbatim>\<open>askAI\<close>, the body of its \<^verbatim>\<open>try\<close>: the outcome of the adapter the
  provider selects, or the literal of the \<^verbatim>\<open>default\<close> branch.
\<close>

definition ask_switch :: "backend \<Rightarrow> string \<Rightarrow> string \<Rightarrow> AIProviderConfig \<Rightarrow> outcome" where
  "ask_switch env provider prompt providerConfig =
     (if provider = ''gemini''
        then callGemini env prompt (apiKey providerConfig) (model providerConfig)
      else if provider = ''openai'' \<or> provider = ''grok''
        then callOpenAICompatible env prompt (Some providerConfig) provider
      else if provider = ''anthropic'' then callAnthropic env prompt (Some providerConfig)
      else if provider = ''ollama'' then callOllama env prompt (Some providerConfig)
      else if provider = ''openrouter'' then callOpenRouter env prompt (Some providerConfig)
      else ([], Inr (AIResponse (JStr ''Unknown provider selected.'') None)))"

definition config_error :: "string \<Rightarrow> json" where
  "config_error provider =
     AIResponse (JStr (''Configuration Error: Missing API Key for '' @ provider
                        @ ''. Please check Settings.'')) None"

text \<open>Reading \<^verbatim>\<open>error.message\<close> of a caught value: the read itself throws when the value
  is \<^verbatim>\<open>undefined\<close> or \<^verbatim>\<open>null\<close>; \<open>None\<close> is the result \<^verbatim>\<open>undefined\<close>.\<close>

fun message_of :: "backend \<Rightarrow> js_error \<Rightarrow> js_error + string option" where
  "message_of env (Error m) = Inr (Some m)"
| "message_of env (TypeError site) = Inr (Some (type_error_message env site))"
| "message_of env NoMessage = Inr None"
| "message_of env (Nullish n) = Inl (TypeError (PropertyOf n ''message''))"

text \<open>The \<^verbatim>\<open>catch\<close> handler of \<^verbatim>\<open>askAI\<close>, with \<^verbatim>\<open>error.message || 'Unknown error'\<close>.\<close>

definition connect_error :: "backend \<Rightarrow> string \<Rightarrow> js_error \<Rightarrow> js_error + json" where
  "connect_error env provider error =
     and_then (message_of env error) (\<lambda>m.
       Inr (AIResponse (JStr (''Error connecting to '' @ provider @ '': ''
              @ (case m of None \<Rightarrow> ''Unknown error''
                 | Some t \<Rightarrow> or_default t ''Unknown error''))) None))"

definition askAI :: "backend \<Rightarrow> string \<Rightarrow> string \<Rightarrow> AppSettings \<Rightarrow> outcome" where
  "askAI env query historyContext settings =
     (case providers settings (activeProvider settings) of
        None \<Rightarrow> ([], Inr (config_error (activeProvider settings)))
      | Some providerConfig \<Rightarrow>
          if \<not> truthy_str (apiKey providerConfig) \<and> activeProvider settings \<noteq> ''ollama''
          then ([], Inr (config_error (activeProvider settings)))
          else (case ask_switch env (activeProvider settings) (ask_prompt query historyContext)
                       providerConfig of
                  (calls, Inr response) \<Rightarrow> (calls, Inr response)
                | (calls, Inl error) \<Rightarrow>
                    (calls, connect_error env (activeProvider settings) error)))"

text \<open>
  The \<^verbatim>\<open>switch\<close> of \<^verbatim>\<open>autoCorrectAI\<close>. The provider configuration is looked up without
  any check, so it may be \<^verbatim>\<open>undefined\<close>; the Gemini branch reads two of its properties
  at the call site.
\<close>

definition correct_switch ::
    "backend \<Rightarrow> string \<Rightarrow> string \<Rightarrow> AIProviderConfig option \<Rightarrow> outcome" where
  "correct_switch env provider prompt providerConfig =
     (if provider = ''gemini''
        then (case providerConfig of
                None \<Rightarrow> ([], Inl (TypeError (PropertyOf Undefined ''apiKey'')))
              | Some cfg \<Rightarrow> callGemini env prompt (apiKey cfg) (model cfg))
      else if provider = ''openai'' \<or> provider = ''grok''
        then callOpenAICompatible env prompt providerConfig provider
      else if provider = ''anthropic'' then callAnthropic env prompt providerConfig
      else if provider = ''ollama'' then callOllama env prompt providerConfig
      else if provider = ''openrouter'' then callOpenRouter env prompt providerConfig
      else ([], Inr (AIResponse (JStr ''Unknown provider.'') None)))"

definition unable_to_analyze :: "string \<Rightarrow> json" where
  "unable_to_analyze command =
     AIResponse (JStr ''Unable to analyze command.'') (Some (JStr command))"

definition autoCorrectAI :: "backend \<Rightarrow> string \<Rightarrow> AppSettings \<Rightarrow> outcome" where
  "autoCorrectAI env command settings =
     (case correct_switch env (activeProvider settings) (correct_prompt command)
             (providers settings (activeProvider settings)) of
        (calls, Inr response) \<Rightarrow> (calls, Inr response)
      | (calls, Inl error) \<Rightarrow> (calls, Inr (unable_to_analyze command)))"


section \<open>Example values and invariants\<close>

text \<open>The first server of the App's default server list.\<close>

definition aws_production :: Server where
  "aws_production =
     \<lparr>srv_id = ''1'', srv_name = ''AWS Production'', host = ''54.211.10.23'',
      username = ''ubuntu'', password = None, port = 22, os = linux, sshKeyId = None,
      preferredAuthMethod = None, isLocal = None\<rparr>"

text \<open>A component whose xterm instance has been created (80 columns, 24 rows) and
  whose connect effect has not run yet.\<close>

definition mounted_terminal :: terminal where
  "mounted_terminal = init_xterm (Some (80, 24)) initial_terminal"

text \<open>
  The invariant behind the cleanup closure: until the latch is set the component is
  still in its initial connection state, and the only cleanup closure ever registered
  captured that initial state.
\<close>

definition cleanup_stale :: "terminal \<Rightarrow> bool" where
  "cleanup_stale t =
     ((isConnectingRef t \<or> (status t = DISCONNECTED \<and> sessionId t = None \<and> pending t = None)) \<and>
      (cleanup t = None \<or> cleanup t = Some (DISCONNECTED, None)) \<and>
      disconnect_calls t = [])"


text \<open>The message texts of V8 for the two kinds of \<^verbatim>\<open>TypeError\<close>.\<close>

fun v8_message :: "type_error_site \<Rightarrow> string" where
  "v8_message (PropertyOf Undefined k) =
     ''Cannot read properties of undefined (reading '' @ [CHR 0x27] @ k @ [CHR 0x27] @ '')''"
| "v8_message (PropertyOf Null k) =
     ''Cannot read properties of null (reading '' @ [CHR 0x27] @ k @ [CHR 0x27] @ '')''"
| "v8_message (NotAFunction callee) = callee @ '' is not a function''"

text \<open>The settings of the test suite (\<^verbatim>\<open>mockSettings\<close>): only Gemini has an API key.\<close>

definition mockSettings :: AppSettings where
  "mockSettings =
     \<lparr>activeProvider = ''gemini'',
      providers = map_of
        [(''gemini'', \<lparr>enabled = True, apiKey = Some ''test-api-key'', baseUrl = None,
                       model = ''gemini-2.5-flash''\<rparr>),
         (''openai'', \<lparr>enabled = True, apiKey = Some [], baseUrl = None,
                       model = ''gpt-4-turbo-preview''\<rparr>),
         (''grok'', \<lparr>enabled = True, apiKey = Some [], baseUrl = None, model = ''grok-beta''\<rparr>),
         (''anthropic'', \<lparr>enabled = True, apiKey = Some [], baseUrl = None,
                          model = ''claude-3-sonnet-20240229''\<rparr>),
         (''ollama'', \<lparr>enabled = True, apiKey = Some [], baseUrl = Some ''http://localhost:11434'',
                       model = ''llama3''\<rparr>),
         (''openrouter'', \<lparr>enabled = True, apiKey = Some [], baseUrl = None,
                           model = ''openai/gpt-3.5-turbo''\<rparr>)]\<rparr>"

text \<open>
  Two environments of the test suite. In the first every request fails with an error
  of the given message (\<^verbatim>\<open>mockRejectedValue\<close>). In the second every request is answered
  with status 200 and the body \<^verbatim>\<open>{response: raw}\<close> (\<^verbatim>\<open>mockResolvedValue\<close>). In both,
  \<^verbatim>\<open>JSON.parse\<close> rejects its argument, as the built-in does for the texts the examples
  hand to it, none of which is JSON.
\<close>

definition rejecting_backend :: "string \<Rightarrow> backend" where
  "rejecting_backend msg =
     \<lparr>fetch = (\<lambda>req. Rejected (Error msg)),
      generateContent = (\<lambda>req. Inl (Error msg)),
      JSON_parse = (\<lambda>v. Inl (Error ''Unexpected token'')),
      origin = ''http://localhost'',
      type_error_message = v8_message\<rparr>"

definition replying_backend :: "string \<Rightarrow> backend" where
  "replying_backend raw =
     \<lparr>fetch = (\<lambda>req. Response \<lparr>ok = True, http_status = 200, statusText = ''OK'',
                                json_body = Inr (JObj [(''response'', JStr raw)])\<rparr>),
      generateContent = (\<lambda>req. Inr (Some raw)),
      JSON_parse = (\<lambda>v. Inl (Error ''Unexpected token'')),
      origin = ''http://localhost'',
      type_error_message = v8_message\<rparr>"



text \<open>An environment in which every HTTP request is refused with status 401.\<close>

definition unauthorized_backend :: backend where
  "unauthorized_backend =
     \<lparr>fetch = (\<lambda>req. Response \<lparr>ok = False, http_status = 401, statusText = ''Unauthorized'',
                                json_body = Inl (Error ''Unexpected end of JSON input'')\<rparr>),
      generateContent = (\<lambda>req. Inl (Error ''API key not valid'')),
      JSON_parse = (\<lambda>v. Inl (Error ''Unexpected token'')),
      origin = ''http://localhost'',
      type_error_message = v8_message\<rparr>"




section \<open>Properties of the session registry\<close>

lemma findIndex_Some_iff:
  "findIndex p xs = Some k \<longleftrightarrow> k < length xs \<and> p (xs ! k) \<and> (\<forall>j<k. \<not> p (xs ! j))"
proof (induction xs arbitrary: k)
  case Nil
  then show ?case by simp
next
  case (Cons x xs)
  show ?case
  proof (cases "p x")
    case True
    then show ?thesis by (cases k) auto
  next
    case False
    show ?thesis
    proof (cases k)
      case 0
      with False show ?thesis by simp
    next
      case (Suc m)
      have "(\<forall>j<Suc m. \<not> p ((x # xs) ! j)) \<longleftrightarrow> (\<forall>j<m. \<not> p (xs ! j))"
        using False by (auto simp: less_Suc_eq_0_disj)
      with False Suc Cons.IH [of m] show ?thesis by auto
    qed
  qed
qed

lemma filter_keeps_prefix:
  assumes "k \<le> length xs" and "\<forall>j<k. q (xs ! j)"
  shows "filter q xs = take k xs @ filter q (drop k xs)"
proof -
  have "\<forall>x \<in> set (take k xs). q x"
    using assms by (auto simp: in_set_conv_nth)
  then have "filter q (take k xs) = take k xs"
    by (simp add: filter_id_conv)
  moreover have "filter q xs = filter q (take k xs) @ filter q (drop k xs)"
    by (metis append_take_drop_id filter_append)
  ultimately show ?thesis by simp
qed

lemma handleSelectServer_live: "active_live (handleSelectServer srv u st)"
  by (simp add: handleSelectServer_def active_live_def Let_def)

lemma onSelectSession_live: "active_live st \<Longrightarrow> active_live (onSelectSession k st)"
  by (simp add: onSelectSession_def active_live_def)

lemma handleCloseSession_live:
  assumes "active_live st"
  shows "active_live (handleCloseSession i st)"
proof (cases "findIndex (\<lambda>s. ses_id s = i) (sessions st)")
  case None
  with assms show ?thesis by (simp add: handleCloseSession_def)
next
  case (Some idx)
  let ?rest = "filter (\<lambda>s. ses_id s \<noteq> i) (sessions st)"
  show ?thesis
  proof (cases "activeSessionId st = Some i")
    case True
    show ?thesis
    proof (cases "?rest = []")
      case True
      with Some \<open>activeSessionId st = Some i\<close> show ?thesis
        by (simp add: handleCloseSession_def active_live_def Let_def)
    next
      case False
      from Some have first: "idx < length (sessions st)" "\<forall>j<idx. ses_id (sessions st ! j) \<noteq> i"
        by (simp_all add: findIndex_Some_iff)
      have split: "?rest = take idx (sessions st) @ filter (\<lambda>s. ses_id s \<noteq> i) (drop idx (sessions st))"
        using first by (intro filter_keeps_prefix) auto
      have "idx \<le> length ?rest"
        using first(1) by (subst split) simp
      then have "nat (max 0 (int idx - 1)) < length ?rest"
        using False by (cases idx) auto
      then have "?rest ! nat (max 0 (int idx - 1)) \<in> set ?rest"
        by (rule nth_mem)
      with Some True False show ?thesis
        by (simp add: handleCloseSession_def active_live_def Let_def del: set_filter)
    qed
  next
    case False
    with assms Some show ?thesis
      by (auto simp: handleCloseSession_def active_live_def Let_def split: option.splits)
  qed
qed

lemma registry_step_live: "active_live st \<Longrightarrow> active_live (registry_step st op)"
  by (cases op) (simp_all add: handleSelectServer_live handleCloseSession_live onSelectSession_live)

lemma foldl_registry_live: "active_live st \<Longrightarrow> active_live (foldl registry_step st ops)"
  by (induction ops arbitrary: st) (simp_all add: registry_step_live)

lemma close_active_repoints:
  assumes act: "activeSessionId st = Some i"
    and idx: "findIndex (\<lambda>s. ses_id s = i) (sessions st) = Some idx"
  shows "sessions (handleCloseSession i st) = filter (\<lambda>s. ses_id s \<noteq> i) (sessions st)"
    and "filter (\<lambda>s. ses_id s \<noteq> i) (sessions st) = [] \<Longrightarrow>
           activeSessionId (handleCloseSession i st) = None"
    and "filter (\<lambda>s. ses_id s \<noteq> i) (sessions st) \<noteq> [] \<Longrightarrow> 0 < idx \<Longrightarrow>
           activeSessionId (handleCloseSession i st) = Some (ses_id (sessions st ! (idx - 1)))"
    and "filter (\<lambda>s. ses_id s \<noteq> i) (sessions st) \<noteq> [] \<Longrightarrow> idx = 0 \<Longrightarrow>
           activeSessionId (handleCloseSession i st) =
             Some (ses_id (hd (filter (\<lambda>s. ses_id s \<noteq> i) (sessions st))))"
proof -
  let ?rest = "filter (\<lambda>s. ses_id s \<noteq> i) (sessions st)"
  show "sessions (handleCloseSession i st) = ?rest"
    using act idx by (simp add: handleCloseSession_def Let_def)
  show "?rest = [] \<Longrightarrow> activeSessionId (handleCloseSession i st) = None"
    using act idx by (simp add: handleCloseSession_def Let_def)
  from idx have first: "idx < length (sessions st)" "\<forall>j<idx. ses_id (sessions st ! j) \<noteq> i"
    by (simp_all add: findIndex_Some_iff)
  have split: "?rest = take idx (sessions st) @ filter (\<lambda>s. ses_id s \<noteq> i) (drop idx (sessions st))"
    using first by (intro filter_keeps_prefix) auto
  show "activeSessionId (handleCloseSession i st) = Some (ses_id (sessions st ! (idx - 1)))"
    if ne: "?rest \<noteq> []" and pos: "0 < idx"
  proof -
    have "nat (max 0 (int idx - 1)) = idx - 1"
      using pos by simp
    moreover have "?rest ! (idx - 1) = sessions st ! (idx - 1)"
      using pos first(1) by (subst split) (simp add: nth_append)
    ultimately show ?thesis
      using act idx ne by (simp add: handleCloseSession_def Let_def)
  qed
  show "activeSessionId (handleCloseSession i st) = Some (ses_id (hd ?rest))"
    if ne: "?rest \<noteq> []" and z: "idx = 0"
    using act idx ne z by (simp add: handleCloseSession_def Let_def hd_conv_nth)
qed

text \<open>
  Claim C8. After every sequence of registry operations (opening a session, closing a
  session, selecting a tab) the active-session pointer is empty or is the id of a
  session in the list. Closing the active session leaves the other sessions, and
  repoints the pointer: to nothing when no session remains, to the session on the
  left of the closed one when there is one, and otherwise to the first remaining
  session.
\<close>

theorem registry_active_pointer_live:
  "active_live (run_registry ops) \<and>
   (\<forall>st i idx.
      activeSessionId st = Some i \<and> findIndex (\<lambda>s. ses_id s = i) (sessions st) = Some idx \<longrightarrow>
      sessions (handleCloseSession i st) = filter (\<lambda>s. ses_id s \<noteq> i) (sessions st) \<and>
      activeSessionId (handleCloseSession i st) =
        (if filter (\<lambda>s. ses_id s \<noteq> i) (sessions st) = [] then None
         else if 0 < idx then Some (ses_id (sessions st ! (idx - 1)))
         else Some (ses_id (hd (filter (\<lambda>s. ses_id s \<noteq> i) (sessions st))))))"
proof (intro conjI allI impI)
  have "active_live initial_registry"
    by (simp add: active_live_def initial_registry_def)
  then show "active_live (run_registry ops)"
    unfolding run_registry_def by (rule foldl_registry_live)
next
  fix st :: registry and i idx
  assume h: "activeSessionId st = Some i \<and> findIndex (\<lambda>s. ses_id s = i) (sessions st) = Some idx"
  then show "sessions (handleCloseSession i st) = filter (\<lambda>s. ses_id s \<noteq> i) (sessions st)"
    by (simp add: close_active_repoints(1))
  from h show "activeSessionId (handleCloseSession i st) =
        (if filter (\<lambda>s. ses_id s \<noteq> i) (sessions st) = [] then None
         else if 0 < idx then Some (ses_id (sessions st ! (idx - 1)))
         else Some (ses_id (hd (filter (\<lambda>s. ses_id s \<noteq> i) (sessions st)))))"
    using close_active_repoints(2-4) [of st i idx] by (cases idx) auto
qed

text \<open>
  An instance: three tabs \<open>a\<close>, \<open>b\<close>, \<open>c\<close> are opened and the middle one is selected
  and closed; the pointer moves to \<open>a\<close>, the tab on its left.
\<close>

theorem registry_active_pointer_live_witness:
  "active_live (run_registry [OpenSession aws_production ''a'', OpenSession aws_production ''b'',
      OpenSession aws_production ''c'', SelectSession 1, CloseSession ''b'']) \<and>
   activeSessionId (run_registry [OpenSession aws_production ''a'',
      OpenSession aws_production ''b'', OpenSession aws_production ''c'', SelectSession 1]) = Some ''b'' \<and>
   findIndex (\<lambda>s. ses_id s = ''b'') (sessions (run_registry [OpenSession aws_production ''a'',
      OpenSession aws_production ''b'', OpenSession aws_production ''c'', SelectSession 1])) = Some 1 \<and>
   activeSessionId (run_registry [OpenSession aws_production ''a'', OpenSession aws_production ''b'',
      OpenSession aws_production ''c'', SelectSession 1, CloseSession ''b'']) = Some ''a'' \<and>
   map ses_id (sessions (run_registry [OpenSession aws_production ''a'',
      OpenSession aws_production ''b'', OpenSession aws_production ''c'', SelectSession 1,
      CloseSession ''b''])) = [''a'', ''c'']"
proof -
  let ?before = "run_registry [OpenSession aws_production ''a'', OpenSession aws_production ''b'',
      OpenSession aws_production ''c'', SelectSession 1]"
  let ?ops = "[OpenSession aws_production ''a'', OpenSession aws_production ''b'',
      OpenSession aws_production ''c'', SelectSession 1, CloseSession ''b'']"
  note defs = run_registry_def initial_registry_def handleSelectServer_def
        onSelectSession_def Let_def
  have after: "run_registry ?ops = handleCloseSession ''b'' ?before"
    by (simp add: run_registry_def)
  have act: "activeSessionId ?before = Some ''b''"
    by (simp add: defs)
  have ids: "map ses_id (sessions ?before) = [''a'', ''b'', ''c'']"
    by (simp add: defs)
  have idx: "findIndex (\<lambda>s. ses_id s = ''b'') (sessions ?before) = Some 1"
    by (simp add: defs)
  note inst = registry_active_pointer_live [of ?ops]
  have live: "active_live (run_registry ?ops)"
    by (rule inst [THEN conjunct1])
  have close: "sessions (handleCloseSession ''b'' ?before) =
                  filter (\<lambda>s. ses_id s \<noteq> ''b'') (sessions ?before) \<and>
               activeSessionId (handleCloseSession ''b'' ?before) =
                 (if filter (\<lambda>s. ses_id s \<noteq> ''b'') (sessions ?before) = [] then None
                  else if 0 < (1::nat) then Some (ses_id (sessions ?before ! (1 - 1)))
                  else Some (ses_id (hd (filter (\<lambda>s. ses_id s \<noteq> ''b'') (sessions ?before)))))"
    by (rule inst [THEN conjunct2, rule_format]) (rule conjI [OF act idx])
  have nth0: "ses_id (sessions ?before ! (1 - 1)) = ''a''"
    by (simp add: defs)
  have rest: "map ses_id (filter (\<lambda>s. ses_id s \<noteq> ''b'') (sessions ?before)) = [''a'', ''c'']"
    by (simp add: defs)
  then have ne: "filter (\<lambda>s. ses_id s \<noteq> ''b'') (sessions ?before) \<noteq> []"
    by auto
  have a1: "activeSessionId (handleCloseSession ''b'' ?before) = Some ''a''"
    using close ne nth0 by presburger
  have a2: "map ses_id (sessions (handleCloseSession ''b'' ?before)) = [''a'', ''c'']"
    using close rest by presburger
  show ?thesis
    unfolding after using live [unfolded after] act idx a1 a2 by blast
qed


section \<open>Properties of the terminal component\<close>

text \<open>Facts about the single steps.\<close>

lemma connectToServer_fields:
  "status (connectToServer srv ks u t) = CONNECTING"
  "sessionId (connectToServer srv ks u t) = Some u"
  "pending (connectToServer srv ks u t) = Some u"
  "isConnectingRef (connectToServer srv ks u t) = isConnectingRef t"
  "xterm (connectToServer srv ks u t) = xterm t"
  "cleanup (connectToServer srv ks u t) = cleanup t"
  by (simp_all add: connectToServer_def invoke_def Let_def)

lemma connectToServer_invocations:
  "\<exists>c. is_connect_call c \<and> invocations (connectToServer srv ks u t) = invocations t @ [c]"
  by (simp add: connectToServer_def invoke_def Let_def)

lemma latch_step: "isConnectingRef t \<Longrightarrow> isConnectingRef (terminal_step t ev)"
  by (cases ev)
     (auto simp: init_xterm_def connect_effect_def connect_resolved_def connect_rejected_def
        on_pty_disconnect_def onData_def handleQuickCommand_def handleResize_def run_cleanup_def invoke_def Let_def
        split: option.splits prod.splits)

lemma latched_step_connect_calls:
  "isConnectingRef t \<Longrightarrow> connect_calls (terminal_step t ev) = connect_calls t"
  by (cases ev)
     (auto simp: connect_calls_def init_xterm_def connect_effect_def connect_resolved_def
        connect_rejected_def on_pty_disconnect_def onData_def handleQuickCommand_def handleResize_def run_cleanup_def
        invoke_def Let_def split: option.splits prod.splits)

lemma latched_run_connect_calls:
  "isConnectingRef t \<Longrightarrow> connect_calls (foldl terminal_step t evs) = connect_calls t"
  by (induction evs arbitrary: t) (simp_all add: latch_step latched_step_connect_calls)

lemma latched_run: "isConnectingRef t \<Longrightarrow> isConnectingRef (foldl terminal_step t evs)"
  by (induction evs arbitrary: t) (simp_all add: latch_step)

lemma step_connect_calls_cases:
  "connect_calls (terminal_step t ev) = connect_calls t \<or>
   (\<not> isConnectingRef t \<and> isConnectingRef (terminal_step t ev) \<and>
    length (connect_calls (terminal_step t ev)) = Suc (length (connect_calls t)))"
proof (cases ev)
  case (ConnectEffect server ks u)
  show ?thesis
  proof (cases "server = None \<or> xterm t = None \<or> isConnectingRef t")
    case True
    then show ?thesis
      using ConnectEffect by (auto simp: connect_effect_def split: option.splits)
  next
    case False
    then obtain srv where srv: "server = Some srv" by auto
    obtain c where c: "is_connect_call c"
      "invocations (connectToServer srv ks u (t\<lparr>isConnectingRef := True\<rparr>)) = invocations t @ [c]"
      using connectToServer_invocations [of srv ks u "t\<lparr>isConnectingRef := True\<rparr>"] by auto
    from False srv ConnectEffect c show ?thesis
      by (simp add: connect_effect_def connect_calls_def connectToServer_fields)
  qed
qed (auto simp: connect_calls_def init_xterm_def connect_resolved_def
        connect_rejected_def on_pty_disconnect_def onData_def handleQuickCommand_def handleResize_def run_cleanup_def
        invoke_def Let_def split: option.splits prod.splits)

lemma unlatched_no_connect_inv:
  "\<not> isConnectingRef t \<Longrightarrow> connect_calls t = [] \<Longrightarrow>
   length (connect_calls (foldl terminal_step t evs)) \<le> 1"
proof (induction evs arbitrary: t)
  case Nil
  then show ?case by simp
next
  case (Cons ev evs)
  from step_connect_calls_cases [of t ev] show ?case
  proof
    assume same: "connect_calls (terminal_step t ev) = connect_calls t"
    show ?thesis
    proof (cases "isConnectingRef (terminal_step t ev)")
      case True
      then show ?thesis
        using same Cons.prems by (simp add: latched_run_connect_calls)
    next
      case False
      then show ?thesis
        using same Cons.prems Cons.IH [of "terminal_step t ev"] by simp
    qed
  next
    assume "\<not> isConnectingRef t \<and> isConnectingRef (terminal_step t ev) \<and>
      length (connect_calls (terminal_step t ev)) = Suc (length (connect_calls t))"
    then show ?thesis
      using Cons.prems by (simp add: latched_run_connect_calls)
  qed
qed

lemma cleanup_stale_initial: "cleanup_stale initial_terminal"
  by (simp add: cleanup_stale_def initial_terminal_def disconnect_calls_def)

lemma cleanup_stale_step: "cleanup_stale t \<Longrightarrow> cleanup_stale (terminal_step t ev)"
proof (cases ev)
  case (ConnectEffect server ks u)
  assume inv: "cleanup_stale t"
  show ?thesis
  proof (cases "server = None \<or> xterm t = None \<or> isConnectingRef t")
    case True
    then show ?thesis
      using ConnectEffect inv by (auto simp: connect_effect_def split: option.splits)
  next
    case False
    then obtain srv where srv: "server = Some srv" by auto
    obtain c where c: "is_connect_call c"
      "invocations (connectToServer srv ks u (t\<lparr>isConnectingRef := True\<rparr>)) = invocations t @ [c]"
      using connectToServer_invocations [of srv ks u "t\<lparr>isConnectingRef := True\<rparr>"] by auto
    from c(1) have "\<not> is_disconnect_call c" by (cases c) simp_all
    with False srv ConnectEffect c inv show ?thesis
      by (simp add: connect_effect_def cleanup_stale_def disconnect_calls_def
          connectToServer_fields)
  qed
qed (auto simp: cleanup_stale_def disconnect_calls_def init_xterm_def connect_resolved_def
        connect_rejected_def on_pty_disconnect_def onData_def handleQuickCommand_def handleResize_def run_cleanup_def
        invoke_def Let_def truthy_str_def split: option.splits prod.splits)

lemma cleanup_stale_run: "cleanup_stale t \<Longrightarrow> cleanup_stale (foldl terminal_step t evs)"
  by (induction evs arbitrary: t) (simp_all add: cleanup_stale_step)

lemma never_disconnects: "disconnect_calls (run_terminal evs) = []"
  using cleanup_stale_run [OF cleanup_stale_initial, of evs]
  by (simp add: run_terminal_def cleanup_stale_def)

lemma connect_calls_imp_latch:
  "(isConnectingRef t \<or> connect_calls t = []) \<Longrightarrow>
   isConnectingRef (foldl terminal_step t evs) \<or> connect_calls (foldl terminal_step t evs) = []"
proof (induction evs arbitrary: t)
  case Nil
  then show ?case by simp
next
  case (Cons ev evs)
  have "isConnectingRef (terminal_step t ev) \<or> connect_calls (terminal_step t ev) = []"
    using Cons.prems step_connect_calls_cases [of t ev] latch_step [of t ev] by auto
  then show ?case
    using Cons.IH [of "terminal_step t ev"] by simp
qed

lemma connect_effect_latched: "isConnectingRef s \<Longrightarrow> connect_effect server ks u s = s"
  by (simp add: connect_effect_def split: option.splits)

text \<open>
  Claim C4. The connection state machine of one terminal: the initial status is
  \<open>DISCONNECTED\<close>; a connect attempt (the connect effect on a component that has its
  xterm and whose latch is clear) moves the status to \<open>CONNECTING\<close>; when the connect
  call resolves the status becomes \<open>CONNECTED\<close>, when it rejects the status becomes
  \<open>ERROR\<close>; from \<open>CONNECTED\<close>, a \<^verbatim>\<open>pty-disconnect\<close> event carrying this session's id moves
  the status to \<open>ERROR\<close>; an event carrying any other id leaves the component unchanged.
\<close>

theorem connection_transition_table:
  "status initial_terminal = DISCONNECTED \<and>
   (\<forall>(t::terminal) srv ks u fit err.
      xterm t \<noteq> None \<and> \<not> isConnectingRef t \<longrightarrow>
        status (connect_effect (Some srv) ks u t) = CONNECTING \<and>
        status (connect_resolved fit (connect_effect (Some srv) ks u t)) = CONNECTED \<and>
        status (connect_rejected err (connect_effect (Some srv) ks u t)) = ERROR) \<and>
   (\<forall>(t::terminal) i err.
      status t = CONNECTED \<and> sessionId t = Some i \<and> i \<noteq> [] \<longrightarrow>
        status (on_pty_disconnect i err t) = ERROR) \<and>
   (\<forall>(t::terminal) i err.
      sessionId t \<noteq> Some i \<longrightarrow> on_pty_disconnect i err t = t)"
proof (intro conjI allI impI)
  show "status initial_terminal = DISCONNECTED"
    by (simp add: initial_terminal_def)
next
  fix t :: terminal and srv ks u and fit :: "(nat \<times> nat) option" and err :: string
  assume h: "xterm t \<noteq> None \<and> \<not> isConnectingRef t"
  let ?t' = "connect_effect (Some srv) ks u t"
  from h have eq: "?t' = (connectToServer srv ks u (t\<lparr>isConnectingRef := True\<rparr>))
      \<lparr>cleanup := Some (status t, sessionId t)\<rparr>"
    by (auto simp: connect_effect_def)
  show "status ?t' = CONNECTING"
    by (simp add: eq connectToServer_fields)
  have p: "pending ?t' = Some u"
    by (simp add: eq connectToServer_fields)
  show "status (connect_resolved fit ?t') = CONNECTED"
    using p by (auto simp: connect_resolved_def invoke_def Let_def split: option.splits)
  show "status (connect_rejected err ?t') = ERROR"
    using p by (simp add: connect_rejected_def)
next
  fix t :: terminal and i err :: string
  assume "status t = CONNECTED \<and> sessionId t = Some i \<and> i \<noteq> []"
  then show "status (on_pty_disconnect i err t) = ERROR"
    by (simp add: on_pty_disconnect_def truthy_str_def)
next
  fix t :: terminal and i err :: string
  assume "sessionId t \<noteq> Some i"
  then show "on_pty_disconnect i err t = t"
    by (auto simp: on_pty_disconnect_def)
qed

text \<open>
  Claim C5. Two runs of the connect effect in immediate succession on one terminal:
  the first sets the latch before anything asynchronous happens and issues one connect
  call; the second finds the latch set and returns without any effect, so exactly one
  connect call is added to the transport calls.
\<close>

theorem two_triggers_one_connect:
  "xterm t \<noteq> None \<and> \<not> isConnectingRef t \<longrightarrow>
     isConnectingRef (connect_effect (Some srv) ks u t) \<and>
     connect_effect server' ks' u' (connect_effect (Some srv) ks u t) =
       connect_effect (Some srv) ks u t \<and>
     length (connect_calls (connect_effect server' ks' u' (connect_effect (Some srv) ks u t))) =
       Suc (length (connect_calls t))"
proof (intro impI)
  assume h: "xterm t \<noteq> None \<and> \<not> isConnectingRef t"
  let ?t' = "connect_effect (Some srv) ks u t"
  from h have eq: "?t' = (connectToServer srv ks u (t\<lparr>isConnectingRef := True\<rparr>))
      \<lparr>cleanup := Some (status t, sessionId t)\<rparr>"
    by (auto simp: connect_effect_def)
  have latch: "isConnectingRef ?t'"
    by (simp add: eq connectToServer_fields)
  have xt: "xterm ?t' \<noteq> None"
    using h by (simp add: eq connectToServer_fields)
  have second: "connect_effect server' ks' u' ?t' = ?t'"
    using latch by (rule connect_effect_latched)
  obtain c where c: "is_connect_call c"
      "invocations (connectToServer srv ks u (t\<lparr>isConnectingRef := True\<rparr>)) = invocations t @ [c]"
    using connectToServer_invocations [of srv ks u "t\<lparr>isConnectingRef := True\<rparr>"] by auto
  have "length (connect_calls ?t') = Suc (length (connect_calls t))"
    using c by (simp add: eq connect_calls_def)
  with latch second
  show "isConnectingRef ?t' \<and> connect_effect server' ks' u' ?t' = ?t' \<and>
     length (connect_calls (connect_effect server' ks' u' ?t')) = Suc (length (connect_calls t))"
    by simp
qed

text \<open>
  Claim C9. No callback of the component resets the latch, so once it is set no
  sequence of events (a rejected connect, a cleanup and a new run of the connect
  effect for another server included) issues another connect call; a connect call is
  only ever issued with the latch set; and over every sequence of events of one
  component instance at most one connect call is issued.
\<close>

theorem latch_never_reset_single_connect:
  "(\<forall>(t::terminal) ev. isConnectingRef t \<longrightarrow> isConnectingRef (terminal_step t ev)) \<and>
   (\<forall>(t::terminal) evs'. isConnectingRef t \<longrightarrow>
      connect_calls (foldl terminal_step t evs') = connect_calls t) \<and>
   (connect_calls (run_terminal evs) \<noteq> [] \<longrightarrow> isConnectingRef (run_terminal evs)) \<and>
   length (connect_calls (run_terminal evs)) \<le> 1"
proof (intro conjI allI impI)
  fix t :: terminal and ev
  assume "isConnectingRef t"
  then show "isConnectingRef (terminal_step t ev)" by (rule latch_step)
next
  fix t :: terminal and evs'
  assume "isConnectingRef t"
  then show "connect_calls (foldl terminal_step t evs') = connect_calls t"
    by (rule latched_run_connect_calls)
next
  assume "connect_calls (run_terminal evs) \<noteq> []"
  moreover have "isConnectingRef initial_terminal \<or> connect_calls initial_terminal = []"
    by (simp add: initial_terminal_def connect_calls_def)
  ultimately show "isConnectingRef (run_terminal evs)"
    using connect_calls_imp_latch [of initial_terminal evs] by (auto simp: run_terminal_def)
next
  have "\<not> isConnectingRef initial_terminal" "connect_calls initial_terminal = []"
    by (simp_all add: initial_terminal_def connect_calls_def)
  then show "length (connect_calls (run_terminal evs)) \<le> 1"
    unfolding run_terminal_def by (rule unlatched_no_connect_inv)
qed

lemmas terminal_defs =
  run_terminal_def initial_terminal_def mounted_terminal_def init_xterm_def connect_effect_def
  connectToServer_def connect_resolved_def connect_rejected_def on_pty_disconnect_def onData_def handleQuickCommand_def
  handleResize_def run_cleanup_def invoke_def truthy_str_def or_null_def aws_production_def
  connect_calls_def disconnect_calls_def Let_def

text \<open>
  An instance of the transition table: the default server, session id \<open>u1\<close>.
\<close>

theorem connection_transition_table_witness:
  "xterm mounted_terminal \<noteq> None \<and> \<not> isConnectingRef mounted_terminal \<and>
   status (connect_effect (Some aws_production) [] ''u1'' mounted_terminal) = CONNECTING \<and>
   status (connect_resolved (Some (120, 40))
     (connect_effect (Some aws_production) [] ''u1'' mounted_terminal)) = CONNECTED \<and>
   status (connect_rejected ''refused''
     (connect_effect (Some aws_production) [] ''u1'' mounted_terminal)) = ERROR \<and>
   status (run_terminal [InitXterm (Some (80, 24)), ConnectEffect (Some aws_production) [] ''u1'',
     ConnectResolved (Some (120, 40))]) = CONNECTED \<and>
   sessionId (run_terminal [InitXterm (Some (80, 24)), ConnectEffect (Some aws_production) [] ''u1'',
     ConnectResolved (Some (120, 40))]) = Some ''u1'' \<and>
   status (on_pty_disconnect ''u1'' ''eof'' (run_terminal [InitXterm (Some (80, 24)),
     ConnectEffect (Some aws_production) [] ''u1'', ConnectResolved (Some (120, 40))])) = ERROR \<and>
   sessionId (run_terminal [InitXterm (Some (80, 24)), ConnectEffect (Some aws_production) [] ''u1'',
     ConnectResolved (Some (120, 40))]) \<noteq> Some ''u2'' \<and>
   on_pty_disconnect ''u2'' ''eof'' (run_terminal [InitXterm (Some (80, 24)),
     ConnectEffect (Some aws_production) [] ''u1'', ConnectResolved (Some (120, 40))]) =
   run_terminal [InitXterm (Some (80, 24)), ConnectEffect (Some aws_production) [] ''u1'',
     ConnectResolved (Some (120, 40))]"
proof -
  let ?c = "run_terminal [InitXterm (Some (80, 24)), ConnectEffect (Some aws_production) [] ''u1'',
     ConnectResolved (Some (120, 40))]"
  note table = connection_transition_table
  have h1: "xterm mounted_terminal \<noteq> None \<and> \<not> isConnectingRef mounted_terminal"
    by (simp add: terminal_defs)
  have r1: "status (connect_effect (Some aws_production) [] ''u1'' mounted_terminal) = CONNECTING \<and>
     status (connect_resolved (Some (120, 40))
       (connect_effect (Some aws_production) [] ''u1'' mounted_terminal)) = CONNECTED \<and>
     status (connect_rejected ''refused''
       (connect_effect (Some aws_production) [] ''u1'' mounted_terminal)) = ERROR"
    by (rule table [THEN conjunct2, THEN conjunct1, rule_format]) (rule h1)
  have c1: "status ?c = CONNECTED" and c2: "sessionId ?c = Some ''u1''"
    by (simp_all add: terminal_defs)
  have r2: "status (on_pty_disconnect ''u1'' ''eof'' ?c) = ERROR"
    by (rule table [THEN conjunct2, THEN conjunct2, THEN conjunct1, rule_format])
       (simp add: c1 c2)
  have c3: "sessionId ?c \<noteq> Some ''u2''"
    by (simp add: c2)
  have r3: "on_pty_disconnect ''u2'' ''eof'' ?c = ?c"
    by (rule table [THEN conjunct2, THEN conjunct2, THEN conjunct2, rule_format]) (rule c3)
  from h1 r1 c1 c2 r2 c3 r3 show ?thesis by blast
qed

text \<open>
  An instance: two connect triggers on a freshly mounted terminal issue the single
  call \<^verbatim>\<open>pty_connect\<close> for session \<open>u1\<close>.
\<close>

theorem two_triggers_one_connect_witness:
  "xterm mounted_terminal \<noteq> None \<and> \<not> isConnectingRef mounted_terminal \<and>
   isConnectingRef (connect_effect (Some aws_production) [] ''u1'' mounted_terminal) \<and>
   length (connect_calls (connect_effect (Some aws_production) [] ''u2''
     (connect_effect (Some aws_production) [] ''u1'' mounted_terminal))) = 1 \<and>
   invocations (connect_effect (Some aws_production) [] ''u2''
     (connect_effect (Some aws_production) [] ''u1'' mounted_terminal)) =
     [pty_connect \<lparr>cp_session_id = ''u1'', cp_host = ''54.211.10.23'', cp_port = 22,
        cp_username = ''ubuntu'', cp_password = None, ssh_key_path = None,
        ssh_key_passphrase = None\<rparr>]"
proof -
  have h: "xterm mounted_terminal \<noteq> None \<and> \<not> isConnectingRef mounted_terminal"
    by (simp add: terminal_defs)
  have z: "connect_calls mounted_terminal = []"
    by (simp add: terminal_defs)
  note two = two_triggers_one_connect [of mounted_terminal aws_production "[]" "''u1''"
      "Some aws_production" "[]" "''u2''", rule_format, OF h]
  have l: "isConnectingRef (connect_effect (Some aws_production) [] ''u1'' mounted_terminal)"
    by (rule two [THEN conjunct1])
  have same: "connect_effect (Some aws_production) [] ''u2''
      (connect_effect (Some aws_production) [] ''u1'' mounted_terminal) =
      connect_effect (Some aws_production) [] ''u1'' mounted_terminal"
    by (rule two [THEN conjunct2, THEN conjunct1])
  have "length (connect_calls (connect_effect (Some aws_production) [] ''u2''
      (connect_effect (Some aws_production) [] ''u1'' mounted_terminal))) =
      Suc (length (connect_calls mounted_terminal))"
    by (rule two [THEN conjunct2, THEN conjunct2])
  then have one: "length (connect_calls (connect_effect (Some aws_production) [] ''u2''
      (connect_effect (Some aws_production) [] ''u1'' mounted_terminal))) = 1"
    by (simp add: z)
  have "invocations (connect_effect (Some aws_production) [] ''u1'' mounted_terminal) =
     [pty_connect \<lparr>cp_session_id = ''u1'', cp_host = ''54.211.10.23'', cp_port = 22,
        cp_username = ''ubuntu'', cp_password = None, ssh_key_path = None,
        ssh_key_passphrase = None\<rparr>]"
    by (simp add: terminal_defs)
  then have inv: "invocations (connect_effect (Some aws_production) [] ''u2''
      (connect_effect (Some aws_production) [] ''u1'' mounted_terminal)) =
     [pty_connect \<lparr>cp_session_id = ''u1'', cp_host = ''54.211.10.23'', cp_port = 22,
        cp_username = ''ubuntu'', cp_password = None, ssh_key_path = None,
        ssh_key_passphrase = None\<rparr>]"
    by (simp only: same)
  from h l one inv show ?thesis by blast
qed

text \<open>
  An instance: the connect call is rejected, the effect is cleaned up and run again;
  the latch stays set and the one rejected call remains the only connect call.
\<close>

theorem latch_never_reset_single_connect_witness:
  "isConnectingRef (run_terminal [InitXterm (Some (80, 24)),
     ConnectEffect (Some aws_production) [] ''u1'', ConnectRejected ''refused'']) \<and>
   status (run_terminal [InitXterm (Some (80, 24)),
     ConnectEffect (Some aws_production) [] ''u1'', ConnectRejected ''refused'']) = ERROR \<and>
   isConnectingRef (terminal_step (run_terminal [InitXterm (Some (80, 24)),
     ConnectEffect (Some aws_production) [] ''u1'', ConnectRejected ''refused''])
     (ConnectEffect (Some aws_production) [] ''u2'')) \<and>
   connect_calls (foldl terminal_step (run_terminal [InitXterm (Some (80, 24)),
     ConnectEffect (Some aws_production) [] ''u1'', ConnectRejected ''refused''])
     [Cleanup, ConnectEffect (Some aws_production) [] ''u2'']) =
   connect_calls (run_terminal [InitXterm (Some (80, 24)),
     ConnectEffect (Some aws_production) [] ''u1'', ConnectRejected ''refused'']) \<and>
   connect_calls (run_terminal [InitXterm (Some (80, 24)),
     ConnectEffect (Some aws_production) [] ''u1'', ConnectRejected ''refused'', Cleanup,
     ConnectEffect (Some aws_production) [] ''u2'']) \<noteq> [] \<and>
   isConnectingRef (run_terminal [InitXterm (Some (80, 24)),
     ConnectEffect (Some aws_production) [] ''u1'', ConnectRejected ''refused'', Cleanup,
     ConnectEffect (Some aws_production) [] ''u2'']) \<and>
   length (connect_calls (run_terminal [InitXterm (Some (80, 24)),
     ConnectEffect (Some aws_production) [] ''u1'', ConnectRejected ''refused'', Cleanup,
     ConnectEffect (Some aws_production) [] ''u2''])) = 1"
proof -
  let ?failed = "run_terminal [InitXterm (Some (80, 24)),
     ConnectEffect (Some aws_production) [] ''u1'', ConnectRejected ''refused'']"
  let ?evs = "[InitXterm (Some (80, 24)),
     ConnectEffect (Some aws_production) [] ''u1'', ConnectRejected ''refused'', Cleanup,
     ConnectEffect (Some aws_production) [] ''u2'']"
  note single = latch_never_reset_single_connect [of ?evs]
  have l: "isConnectingRef ?failed" and e: "status ?failed = ERROR"
    by (simp_all add: terminal_defs)
  have s1: "isConnectingRef (terminal_step ?failed (ConnectEffect (Some aws_production) [] ''u2''))"
    by (rule single [THEN conjunct1, rule_format]) (rule l)
  have s2: "connect_calls (foldl terminal_step ?failed
      [Cleanup, ConnectEffect (Some aws_production) [] ''u2'']) = connect_calls ?failed"
    by (rule single [THEN conjunct2, THEN conjunct1, rule_format]) (rule l)
  have ne: "connect_calls (run_terminal ?evs) \<noteq> []"
    by (simp add: terminal_defs)
  have s3: "isConnectingRef (run_terminal ?evs)"
    by (rule single [THEN conjunct2, THEN conjunct2, THEN conjunct1, rule_format]) (rule ne)
  have "length (connect_calls (run_terminal ?evs)) \<le> 1"
    by (rule single [THEN conjunct2, THEN conjunct2, THEN conjunct2])
  with ne have s4: "length (connect_calls (run_terminal ?evs)) = 1"
    by (cases "connect_calls (run_terminal ?evs)") auto
  from l e s1 s2 ne s3 s4 show ?thesis by blast
qed

text \<open>
  Claim C6 (evaluation of the code). A terminal is mounted, connects successfully
  (status \<open>CONNECTED\<close>, session \<open>u1\<close>) and is then torn down. The cleanup closure was
  created by the render that ran the effect, so it holds \<open>DISCONNECTED\<close> and no session
  id; its guard fails and no \<^verbatim>\<open>pty_disconnect\<close> call reaches the transport collaborator.
  By \<open>never_disconnects\<close> this is so for every sequence of events.
\<close>

theorem close_connected_issues_no_disconnect:
  "status (run_terminal [InitXterm (Some (80, 24)), ConnectEffect (Some aws_production) [] ''u1'',
     ConnectResolved (Some (120, 40))]) = CONNECTED \<and>
   sessionId (run_terminal [InitXterm (Some (80, 24)), ConnectEffect (Some aws_production) [] ''u1'',
     ConnectResolved (Some (120, 40))]) = Some ''u1'' \<and>
   cleanup (run_terminal [InitXterm (Some (80, 24)), ConnectEffect (Some aws_production) [] ''u1'',
     ConnectResolved (Some (120, 40))]) = Some (DISCONNECTED, None) \<and>
   invocations (run_terminal [InitXterm (Some (80, 24)), ConnectEffect (Some aws_production) [] ''u1'',
     ConnectResolved (Some (120, 40)), Cleanup]) =
     [pty_connect \<lparr>cp_session_id = ''u1'', cp_host = ''54.211.10.23'', cp_port = 22,
        cp_username = ''ubuntu'', cp_password = None, ssh_key_path = None,
        ssh_key_passphrase = None\<rparr>,
      pty_resize ''u1'' 120 40] \<and>
   pty_disconnect ''u1'' \<notin> set (invocations (run_terminal [InitXterm (Some (80, 24)),
     ConnectEffect (Some aws_production) [] ''u1'', ConnectResolved (Some (120, 40)), Cleanup]))"
  by (simp add: terminal_defs)


section \<open>Properties of the Ollama response normalizer\<close>

lemma split_at_first_None: "\<not> sublist pat s \<Longrightarrow> split_at_first pat s = None"
proof (induction s)
  case Nil
  then show ?case by auto
next
  case (Cons c cs)
  from Cons.prems have "\<not> prefix pat (c # cs)" and "\<not> sublist pat cs"
    by (auto simp: sublist_Cons_right)
  with Cons.IH show ?case by simp
qed

lemma codeBlockMatch_None: "\<not> sublist fence s \<Longrightarrow> codeBlockMatch s = None"
  by (simp add: codeBlockMatch_def split_at_first_None)

lemma accept_parsed_not_object: "\<forall>kvs. v \<noteq> JObj kvs \<Longrightarrow> accept_parsed v = None"
  by (cases v) (simp_all add: accept_parsed_def)

lemma try_parse_not_object:
  "\<forall>kvs. JSON_parse env (Some (JStr s)) \<noteq> Inr (JObj kvs) \<Longrightarrow> try_parse env s = None"
  by (auto simp: try_parse_def accept_parsed_not_object split: sum.splits)

lemma remove_from_id: "\<not> sublist pat s \<Longrightarrow> remove_from 0 pat s = s"
proof (induction s)
  case Nil
  then show ?case by simp
next
  case (Cons c cs)
  from Cons.prems have "\<not> prefix pat (c # cs)" and "\<not> sublist pat cs"
    by (auto simp: sublist_Cons_right)
  with Cons.IH show ?case by simp
qed

lemma remove_all_id: "\<not> sublist pat s \<Longrightarrow> remove_all pat s = s"
  by (simp add: remove_all_def remove_from_id)

lemma no_fence_no_fence_json: "\<not> sublist fence s \<Longrightarrow> \<not> sublist fence_json s"
proof
  assume nf: "\<not> sublist fence s" and "sublist fence_json s"
  moreover have "sublist fence fence_json"
    by (rule prefix_imp_sublist) (simp add: fence_def fence_json_def)
  ultimately show False
    using sublist_order.order_trans by blast
qed

lemma is_alpha_not_ws: "is_alpha c \<Longrightarrow> \<not> is_ws c"
  by (auto simp: is_alpha_def is_ws_def Let_def)

lemma brace_not_ws: "\<not> is_ws CHR ''{''"
  by (simp add: is_ws_def)

lemma trim_Nil: "trim [] = []"
  by (simp add: trim_def)

lemma trim_id:
  assumes "x \<noteq> []" and "\<not> is_ws (hd x)" and "\<not> is_ws (last x)"
  shows "trim x = x"
proof -
  from assms(1,2) have a: "dropWhile is_ws x = x"
    by (cases x) simp_all
  from assms(1) obtain ys y where x: "x = ys @ [y]"
    by (cases x rule: rev_cases) auto
  with assms(3) have "dropWhile is_ws (rev x) = rev x"
    by simp
  with a show ?thesis
    by (simp add: trim_def)
qed

lemma trim_ends:
  assumes "trim s \<noteq> []"
  shows "\<not> is_ws (hd (trim s))" and "\<not> is_ws (last (trim s))"
proof -
  let ?a = "dropWhile is_ws s"
  let ?b = "dropWhile is_ws (rev ?a)"
  from assms have b: "?b \<noteq> []"
    by (simp add: trim_def del: dropWhile_eq_Nil_conv)
  have a: "?a \<noteq> []"
  proof
    assume "?a = []"
    then have "?b = []"
      by (simp del: dropWhile_eq_Nil_conv)
    with b show False ..
  qed
  have "last (trim s) = hd ?b"
    using b by (simp add: trim_def last_rev)
  then show "\<not> is_ws (last (trim s))"
    using b hd_dropWhile [of is_ws "rev ?a"] by (simp del: dropWhile_eq_Nil_conv)
  have "suffix ?b (rev ?a)"
    by (rule suffix_dropWhile)
  then obtain zs where "rev ?a = zs @ ?b"
    by (auto simp: suffix_def)
  then have "last (rev ?a) = last ?b"
    using b by (metis last_appendR)
  then have "hd (trim s) = hd ?a"
    using a b by (simp add: trim_def hd_rev last_rev del: dropWhile_eq_Nil_conv)
  then show "\<not> is_ws (hd (trim s))"
    using a hd_dropWhile [of is_ws s] by (simp del: dropWhile_eq_Nil_conv)
qed

lemma trim_sublist: "sublist (trim s) s"
proof -
  obtain x where x: "s = x @ dropWhile is_ws s"
    by (metis takeWhile_dropWhile_id)
  have "suffix (dropWhile is_ws (rev (dropWhile is_ws s))) (rev (dropWhile is_ws s))"
    by (rule suffix_dropWhile)
  then obtain y where "rev (dropWhile is_ws s) = y @ dropWhile is_ws (rev (dropWhile is_ws s))"
    by (auto simp: suffix_def)
  then have "dropWhile is_ws s = trim s @ rev y"
    by (metis rev_append rev_rev_ident trim_def)
  with x have "s = x @ trim s @ rev y"
    by simp
  then show ?thesis
    by (metis sublist_appendI)
qed

lemma trim_keeps_absent:
  assumes "\<not> sublist pat s"
  shows "\<not> sublist pat (trim s)"
  using assms trim_sublist sublist_order.order_trans by blast

lemma trim_set: "set (trim s) \<subseteq> set s"
  using trim_sublist [of s] by (rule set_mono_sublist)

lemma strip_leading_suffix: "suffix (strip_leading s) s"
  by (simp add: strip_leading_def Let_def suffix_dropWhile)

lemma fallback_trimmed:
  assumes ne: "t \<noteq> []" and h: "\<not> is_ws (hd t)" and l: "\<not> is_ws (last t)"
    and nf: "\<not> sublist fence t"
  shows "fallback t = AIResponse (JStr (strip_leading t)) None"
proof -
  let ?x = "strip_leading t"
  let ?r = "dropWhile (\<lambda>c. \<not> (c = CHR ''{'' \<or> is_alpha c)) t"
  have suf: "suffix ?x t"
    by (rule strip_leading_suffix)
  then have "sublist ?x t"
    by (rule suffix_imp_sublist)
  with nf have nfx: "\<not> sublist fence ?x"
    using sublist_order.order_trans by blast
  then have rm: "remove_all fence (remove_all fence_json ?x) = ?x"
    by (simp add: remove_all_id no_fence_no_fence_json)
  have xne: "?x \<noteq> []"
    using ne by (simp add: strip_leading_def Let_def del: dropWhile_eq_Nil_conv)
  have last_x: "last ?x = last t"
    using suf xne by (metis last_appendR suffix_def)
  have hd_x: "\<not> is_ws (hd ?x)"
  proof (cases "?r = []")
    case True
    then show ?thesis
      using h by (simp add: strip_leading_def Let_def del: dropWhile_eq_Nil_conv)
  next
    case False
    then have "hd ?r = CHR ''{'' \<or> is_alpha (hd ?r)"
      using hd_dropWhile [of "\<lambda>c. \<not> (c = CHR ''{'' \<or> is_alpha c)" t]
      by (simp del: dropWhile_eq_Nil_conv)
    then have "\<not> is_ws (hd ?r)"
      using is_alpha_not_ws brace_not_ws by auto
    with False show ?thesis
      by (simp add: strip_leading_def Let_def del: dropWhile_eq_Nil_conv)
  qed
  have "trim ?x = ?x"
    using xne hd_x l last_x by (intro trim_id) simp_all
  with rm xne show ?thesis
    by (simp add: fallback_def Let_def)
qed

lemma split_at_first_Some: "split_at_first pat s = Some (b, a) \<Longrightarrow> s = b @ pat @ a"
proof (induction s arbitrary: b)
  case Nil
  then show ?case by (auto split: if_splits)
next
  case (Cons c cs)
  show ?case
  proof (cases "prefix pat (c # cs)")
    case True
    with Cons.prems have "b = []" and "a = drop (length pat) (c # cs)"
      by auto
    moreover from True obtain zs where "c # cs = pat @ zs"
      by (auto simp: prefix_def)
    ultimately show ?thesis by simp
  next
    case False
    with Cons.prems obtain b' where "split_at_first pat cs = Some (b', a)" and "b = c # b'"
      by auto
    with Cons.IH [of b'] show ?thesis by simp
  qed
qed

lemma jsonMatch_sublist:
  assumes "jsonMatch s = Some m"
  shows "sublist m s"
proof -
  let ?r = "dropWhile (\<lambda>c. c \<noteq> CHR ''{'') s"
  from assms obtain b rest pre post mid after
    where r: "?r = b # rest"
      and s1: "split_at_first [CHR 0x22, CHR ''m'', CHR ''a'', CHR ''r'', CHR ''k'', CHR ''d'',
                 CHR ''o'', CHR ''w'', CHR ''n'', CHR 0x22] rest = Some (pre, post)"
      and s2: "split_at_first ''}'' post = Some (mid, after)"
      and m: "m = b # pre @ [CHR 0x22, CHR ''m'', CHR ''a'', CHR ''r'', CHR ''k'', CHR ''d'',
                 CHR ''o'', CHR ''w'', CHR ''n'', CHR 0x22] @ mid @ ''}''"
    by (auto simp: jsonMatch_def split: list.splits option.splits)
  from s1 have rest: "rest = pre @ [CHR 0x22, CHR ''m'', CHR ''a'', CHR ''r'', CHR ''k'', CHR ''d'',
                 CHR ''o'', CHR ''w'', CHR ''n'', CHR 0x22] @ post"
    by (rule split_at_first_Some)
  from s2 have post: "post = mid @ ''}'' @ after"
    by (rule split_at_first_Some)
  have "s = takeWhile (\<lambda>c. c \<noteq> CHR ''{'') s @ ?r"
    by simp
  then have "s = takeWhile (\<lambda>c. c \<noteq> CHR ''{'') s @ m @ after"
    by (simp only: r rest post m append.assoc append_Cons)
  then show ?thesis
    by (metis sublist_appendI)
qed

text \<open>A text is free of JSON objects for the parser of an environment when the parser
  reads none of its contiguous parts as an object.\<close>

lemma strategy3_no_object:
  assumes "\<forall>s kvs. sublist s t \<longrightarrow> JSON_parse env (Some (JStr s)) \<noteq> Inr (JObj kvs)"
  shows "strategy3 env t = None"
proof (cases "jsonMatch t")
  case None
  then show ?thesis by (simp add: strategy3_def)
next
  case (Some m)
  then have "sublist m t"
    by (rule jsonMatch_sublist)
  with assms have "\<forall>kvs. JSON_parse env (Some (JStr m)) \<noteq> Inr (JObj kvs)"
    by blast
  then have "try_parse env m = None"
    by (rule try_parse_not_object)
  with Some show ?thesis by (simp add: strategy3_def)
qed

lemma normalize_prose:
  assumes "t \<noteq> []" and "\<not> is_ws (hd t)" and "\<not> is_ws (last t)"
    and "\<not> sublist fence t"
    and np: "\<forall>s kvs. sublist s t \<longrightarrow> JSON_parse env (Some (JStr s)) \<noteq> Inr (JObj kvs)"
  shows "extract_response env t = AIResponse (JStr (strip_leading t)) None"
proof -
  from np have "\<forall>kvs. JSON_parse env (Some (JStr t)) \<noteq> Inr (JObj kvs)"
    by blast
  then have "strategy1 env t = None"
    by (simp add: strategy1_def try_parse_not_object)
  moreover have "strategy2 env t = None"
    using assms(4) by (simp add: strategy2_def codeBlockMatch_None)
  moreover have "strategy3 env t = None"
    using np by (rule strategy3_no_object)
  ultimately show ?thesis
    using assms(1-4) by (simp add: extract_response_def fallback_trimmed)
qed

lemma strip_leading_brace: "s \<noteq> [] \<Longrightarrow> hd s = CHR ''{'' \<Longrightarrow> strip_leading s = s"
  by (cases s) (simp_all add: strip_leading_def)





lemma strip_leading_alpha: "s \<noteq> [] \<Longrightarrow> is_alpha (hd s) \<Longrightarrow> strip_leading s = s"
  by (cases s) (simp_all add: strip_leading_def)

lemma normalize_reply_prose:
  assumes ne: "trim raw \<noteq> []" and nf: "\<not> sublist fence raw"
    and np: "\<forall>s kvs. sublist s raw \<longrightarrow> JSON_parse env (Some (JStr s)) \<noteq> Inr (JObj kvs)"
  shows "normalize_reply env raw = Inr (AIResponse (JStr (strip_leading (trim raw))) None)"
proof -
  from ne have raw: "raw \<noteq> []"
    by (auto simp: trim_Nil)
  have "\<forall>s kvs. sublist s (trim raw) \<longrightarrow> JSON_parse env (Some (JStr s)) \<noteq> Inr (JObj kvs)"
    using np trim_sublist sublist_order.order_trans by blast
  moreover have "\<not> sublist fence (trim raw)"
    using nf by (simp add: trim_keeps_absent)
  ultimately have "extract_response env (trim raw) = AIResponse (JStr (strip_leading (trim raw))) None"
    using ne trim_ends [OF ne] by (intro normalize_prose) simp_all
  then show ?thesis
    using ne raw by (simp add: normalize_reply_def)
qed


section \<open>Properties of the AI gateway\<close>

lemma adapter_calls:
  "\<exists>c. fst (callGemini env prompt key mdl) = [c]"
  "\<exists>c. fst (callOpenAICompatible env prompt (Some cfg) p) = [c]"
  "\<exists>c. fst (callAnthropic env prompt (Some cfg)) = [c]"
  "\<exists>c. fst (callOllama env prompt (Some cfg)) = [c]"
  "\<exists>c. fst (callOpenRouter env prompt (Some cfg)) = [c]"
  by (simp_all add: callGemini_def callOpenAICompatible_def callAnthropic_def callOllama_def
      callOpenRouter_def Let_def)

lemma adapter_undefined_config:
  "callOpenAICompatible env prompt None p = ([], Inl (TypeError (PropertyOf Undefined ''apiKey'')))"
  "callAnthropic env prompt None = ([], Inl (TypeError (PropertyOf Undefined ''apiKey'')))"
  "callOllama env prompt None = ([], Inl (TypeError (PropertyOf Undefined ''baseUrl'')))"
  "callOpenRouter env prompt None = ([], Inl (TypeError (PropertyOf Undefined ''apiKey'')))"
  by (simp_all add: callOpenAICompatible_def callAnthropic_def callOllama_def callOpenRouter_def)

lemma askAI_config_error:
  assumes "providers settings (activeProvider settings) = Some providerConfig"
    and "\<not> truthy_str (apiKey providerConfig)"
    and "activeProvider settings \<noteq> ''ollama''"
  shows "askAI env query historyContext settings = ([], Inr (config_error (activeProvider settings)))"
  using assms by (simp add: askAI_def)

lemma config_error_text:
  "\<exists>md. config_error p = AIResponse (JStr md) None \<and>
        sublist ''Configuration Error: Missing API Key'' md \<and> sublist p md"
proof -
  let ?md = "''Configuration Error: Missing API Key for '' @ p @ ''. Please check Settings.''"
  have "prefix ''Configuration Error: Missing API Key'' ?md"
    by simp
  then have "sublist ''Configuration Error: Missing API Key'' ?md"
    by (rule prefix_imp_sublist)
  moreover have "sublist p ?md"
    by (rule sublist_appendI)
  ultimately show ?thesis
    unfolding config_error_def by blast
qed

lemma ask_switch_ollama:
  "ask_switch env ''ollama'' prompt cfg = callOllama env prompt (Some cfg)"
  by (simp add: ask_switch_def)

lemma askAI_calls:
  assumes "providers settings (activeProvider settings) = Some providerConfig"
    and "truthy_str (apiKey providerConfig) \<or> activeProvider settings = ''ollama''"
  shows "fst (askAI env query historyContext settings) =
         fst (ask_switch env (activeProvider settings) (ask_prompt query historyContext) providerConfig)"
  using assms by (auto simp: askAI_def split: prod.splits sum.splits)

text \<open>
  Claim C3. With one of the five providers that need a credential active and its
  \<^verbatim>\<open>apiKey\<close> empty or absent, \<^verbatim>\<open>askAI\<close> makes no call to a backend (no \<^verbatim>\<open>fetch\<close>, no SDK
  dispatch) and returns a response whose markdown contains the marker
  \<^verbatim>\<open>Configuration Error: Missing API Key\<close> and the provider's identifier. Ollama is
  exempt: with any key, also an empty one, its adapter is dispatched and makes its one
  request.
\<close>

theorem askAI_missing_key_no_dispatch:
  "(activeProvider settings \<in> {''gemini'', ''openai'', ''grok'', ''anthropic'', ''openrouter''} \<and>
    providers settings (activeProvider settings) = Some providerConfig \<and>
    \<not> truthy_str (apiKey providerConfig) \<longrightarrow>
      fst (askAI env query historyContext settings) = [] \<and>
      (\<exists>md. snd (askAI env query historyContext settings) = Inr (AIResponse (JStr md) None) \<and>
            sublist ''Configuration Error: Missing API Key'' md \<and>
            sublist (activeProvider settings) md)) \<and>
   (activeProvider settings = ''ollama'' \<and>
    providers settings (activeProvider settings) = Some providerConfig \<longrightarrow>
      (\<exists>c. fst (askAI env query historyContext settings) = [c]))"
proof (intro conjI impI)
  assume h: "activeProvider settings \<in> {''gemini'', ''openai'', ''grok'', ''anthropic'', ''openrouter''} \<and>
    providers settings (activeProvider settings) = Some providerConfig \<and>
    \<not> truthy_str (apiKey providerConfig)"
  then have "activeProvider settings \<noteq> ''ollama''"
    by auto
  with h have eq: "askAI env query historyContext settings =
      ([], Inr (config_error (activeProvider settings)))"
    by (simp add: askAI_config_error)
  then show "fst (askAI env query historyContext settings) = []"
    by simp
  from config_error_text [of "activeProvider settings"] eq
  show "\<exists>md. snd (askAI env query historyContext settings) = Inr (AIResponse (JStr md) None) \<and>
            sublist ''Configuration Error: Missing API Key'' md \<and>
            sublist (activeProvider settings) md"
    by auto
next
  assume h: "activeProvider settings = ''ollama'' \<and>
    providers settings (activeProvider settings) = Some providerConfig"
  then have p: "activeProvider settings = ''ollama''"
    and c: "providers settings (activeProvider settings) = Some providerConfig"
    by blast+
  have "fst (askAI env query historyContext settings) =
      fst (ask_switch env (activeProvider settings) (ask_prompt query historyContext) providerConfig)"
    using c p by (intro askAI_calls) blast+
  then have "fst (askAI env query historyContext settings) =
      fst (callOllama env (ask_prompt query historyContext) (Some providerConfig))"
    by (simp add: p ask_switch_ollama)
  then show "\<exists>c. fst (askAI env query historyContext settings) = [c]"
    using adapter_calls(4) by simp
qed









lemma correct_switch_undefined_config:
  assumes "p \<in> {''gemini'', ''openai'', ''grok'', ''anthropic'', ''ollama'', ''openrouter''}"
  shows "\<exists>e. correct_switch env p prompt None = ([], Inl e)"
  using assms by (auto simp: correct_switch_def adapter_undefined_config)

lemma correct_switch_calls:
  assumes "p \<in> {''gemini'', ''openai'', ''grok'', ''anthropic'', ''ollama'', ''openrouter''}"
  shows "\<exists>c. fst (correct_switch env p prompt (Some cfg)) = [c]"
  using assms by (auto simp: correct_switch_def adapter_calls)

text \<open>
  Claim C10. \<^verbatim>\<open>autoCorrectAI\<close> always returns a response. Whenever anything in its
  \<^verbatim>\<open>switch\<close> throws, the response is exactly
  \<^verbatim>\<open>{markdown: "Unable to analyze command.", suggestedCommand: command}\<close>, with the input
  command unchanged. That includes a provider configuration that is \<^verbatim>\<open>undefined\<close>
  (for each of the six providers the property read throws before any request). There
  is no credential check: with an empty or absent key the adapter of a provider that
  needs one is still dispatched and makes its request.
\<close>

theorem autoCorrectAI_failure_echoes_command:
  "(\<exists>response. snd (autoCorrectAI env command settings) = Inr response) \<and>
   (\<forall>calls error.
      correct_switch env (activeProvider settings) (correct_prompt command)
        (providers settings (activeProvider settings)) = (calls, Inl error) \<longrightarrow>
      autoCorrectAI env command settings =
        (calls, Inr (AIResponse (JStr ''Unable to analyze command.'') (Some (JStr command))))) \<and>
   (activeProvider settings \<in> {''gemini'', ''openai'', ''grok'', ''anthropic'', ''ollama'', ''openrouter''} \<and>
    providers settings (activeProvider settings) = None \<longrightarrow>
      autoCorrectAI env command settings =
        ([], Inr (AIResponse (JStr ''Unable to analyze command.'') (Some (JStr command))))) \<and>
   (\<forall>providerConfig.
      activeProvider settings \<in> {''gemini'', ''openai'', ''grok'', ''anthropic'', ''openrouter''} \<and>
      providers settings (activeProvider settings) = Some providerConfig \<and>
      \<not> truthy_str (apiKey providerConfig) \<longrightarrow>
      (\<exists>c. fst (autoCorrectAI env command settings) = [c]))"
proof (intro conjI allI impI)
  show "\<exists>response. snd (autoCorrectAI env command settings) = Inr response"
    by (auto simp: autoCorrectAI_def split: prod.splits sum.splits)
next
  fix calls error
  assume "correct_switch env (activeProvider settings) (correct_prompt command)
        (providers settings (activeProvider settings)) = (calls, Inl error)"
  then show "autoCorrectAI env command settings =
        (calls, Inr (AIResponse (JStr ''Unable to analyze command.'') (Some (JStr command))))"
    by (simp add: autoCorrectAI_def unable_to_analyze_def)
next
  assume h: "activeProvider settings \<in> {''gemini'', ''openai'', ''grok'', ''anthropic'', ''ollama'', ''openrouter''} \<and>
    providers settings (activeProvider settings) = None"
  then obtain e where "correct_switch env (activeProvider settings) (correct_prompt command) None =
      ([], Inl e)"
    using correct_switch_undefined_config by blast
  with h show "autoCorrectAI env command settings =
        ([], Inr (AIResponse (JStr ''Unable to analyze command.'') (Some (JStr command))))"
    by (simp add: autoCorrectAI_def unable_to_analyze_def)
next
  fix providerConfig
  assume h: "activeProvider settings \<in> {''gemini'', ''openai'', ''grok'', ''anthropic'', ''openrouter''} \<and>
      providers settings (activeProvider settings) = Some providerConfig \<and>
      \<not> truthy_str (apiKey providerConfig)"
  then have "activeProvider settings \<in>
      {''gemini'', ''openai'', ''grok'', ''anthropic'', ''ollama'', ''openrouter''}"
    by auto
  then obtain c where "fst (correct_switch env (activeProvider settings) (correct_prompt command)
      (Some providerConfig)) = [c]"
    using correct_switch_calls by blast
  with h show "\<exists>c. fst (autoCorrectAI env command settings) = [c]"
    by (auto simp: autoCorrectAI_def split: prod.splits sum.splits)
qed

lemma rejected_fetch_outcomes:
  "snd (callOllama (rejecting_backend m) prompt (Some cfg)) = Inl (Error m)"
  "snd (callOpenAICompatible (rejecting_backend m) prompt (Some cfg) p) = Inl (Error m)"
  by (simp_all add: callOllama_def callOpenAICompatible_def rejecting_backend_def Let_def)

lemma mockSettings_lookup:
  "providers mockSettings ''unknown'' = None"
  "providers mockSettings ''openai'' =
     Some \<lparr>enabled = True, apiKey = Some [], baseUrl = None, model = ''gpt-4-turbo-preview''\<rparr>"
  "providers mockSettings ''ollama'' =
     Some \<lparr>enabled = True, apiKey = Some [], baseUrl = Some ''http://localhost:11434'',
           model = ''llama3''\<rparr>"
  by (simp_all add: mockSettings_def)







text \<open>
  Claim C2 (evaluation of the code). With the settings of the test suite and the
  active provider \<^verbatim>\<open>unknown\<close>, the lookup of the provider configuration gives
  \<^verbatim>\<open>undefined\<close>, the credential check returns the configuration error, and the
  \<^verbatim>\<open>default\<close> branch with \<^verbatim>\<open>Unknown provider selected.\<close> is never reached. This holds in
  every environment.
\<close>

theorem askAI_unknown_provider_config_error:
  "askAI env ''test query'' ''test context'' (mockSettings\<lparr>activeProvider := ''unknown''\<rparr>) =
     ([], Inr (AIResponse
        (JStr ''Configuration Error: Missing API Key for unknown. Please check Settings.'') None)) \<and>
   snd (askAI env ''test query'' ''test context'' (mockSettings\<lparr>activeProvider := ''unknown''\<rparr>)) \<noteq>
     Inr (AIResponse (JStr ''Unknown provider selected.'') None)"
  by (simp add: askAI_def mockSettings_lookup config_error_def AIResponse_def)

text \<open>
  An instance (the test \<^verbatim>\<open>should return error message if API key is missing\<close>): OpenAI
  is active with an empty key; and Ollama with an empty key makes its request.
\<close>

theorem askAI_missing_key_no_dispatch_witness:
  "activeProvider (mockSettings\<lparr>activeProvider := ''openai''\<rparr>) \<in>
     {''gemini'', ''openai'', ''grok'', ''anthropic'', ''openrouter''} \<and>
   providers (mockSettings\<lparr>activeProvider := ''openai''\<rparr>) ''openai'' =
     Some \<lparr>enabled = True, apiKey = Some [], baseUrl = None, model = ''gpt-4-turbo-preview''\<rparr> \<and>
   \<not> truthy_str (Some []) \<and>
   fst (askAI (rejecting_backend ''Network error'') ''test query'' ''test context''
      (mockSettings\<lparr>activeProvider := ''openai''\<rparr>)) = [] \<and>
   (\<exists>md. snd (askAI (rejecting_backend ''Network error'') ''test query'' ''test context''
      (mockSettings\<lparr>activeProvider := ''openai''\<rparr>)) = Inr (AIResponse (JStr md) None) \<and>
      sublist ''Configuration Error: Missing API Key'' md \<and> sublist ''openai'' md) \<and>
   (\<exists>c. fst (askAI (rejecting_backend ''Network error'') ''test query'' ''test context''
      (mockSettings\<lparr>activeProvider := ''ollama''\<rparr>)) = [c])"
proof -
  let ?env = "rejecting_backend ''Network error''"
  let ?s = "mockSettings\<lparr>activeProvider := ''openai''\<rparr>"
  let ?cfg = "\<lparr>enabled = True, apiKey = Some [], baseUrl = None, model = ''gpt-4-turbo-preview''\<rparr>"
  let ?o = "mockSettings\<lparr>activeProvider := ''ollama''\<rparr>"
  let ?ocfg = "\<lparr>enabled = True, apiKey = Some [], baseUrl = Some ''http://localhost:11434'',
           model = ''llama3''\<rparr>"
  have a: "activeProvider ?s \<in> {''gemini'', ''openai'', ''grok'', ''anthropic'', ''openrouter''}"
    by simp
  have c: "providers ?s (activeProvider ?s) = Some ?cfg"
    by (simp add: mockSettings_lookup)
  have k: "\<not> truthy_str (apiKey ?cfg)"
    by (simp add: truthy_str_def)
  have r1: "fst (askAI ?env ''test query'' ''test context'' ?s) = [] \<and>
      (\<exists>md. snd (askAI ?env ''test query'' ''test context'' ?s) = Inr (AIResponse (JStr md) None) \<and>
            sublist ''Configuration Error: Missing API Key'' md \<and>
            sublist (activeProvider ?s) md)"
    using a c k
    by (intro askAI_missing_key_no_dispatch [THEN conjunct1, rule_format]) blast
  have oc: "activeProvider ?o = ''ollama'' \<and> providers ?o (activeProvider ?o) = Some ?ocfg"
    by (simp add: mockSettings_lookup)
  have r2: "\<exists>c. fst (askAI ?env ''test query'' ''test context'' ?o) = [c]"
    using oc by (intro askAI_missing_key_no_dispatch [THEN conjunct2, rule_format])
  from a c k r1 r2 show ?thesis
    by (simp add: truthy_str_def)
qed

text \<open>
  Instances: the test \<^verbatim>\<open>should return error message on failure\<close> (Ollama, \<^verbatim>\<open>fetch\<close>
  rejects); settings without any provider configuration; and OpenAI with an empty key,
  whose request goes out and is refused with status 401.
\<close>

theorem autoCorrectAI_failure_echoes_command_witness:
  "snd (correct_switch (rejecting_backend ''API error'') ''ollama'' (correct_prompt ''invalid command'')
      (providers mockSettings ''ollama'')) = Inl (Error ''API error'') \<and>
   snd (autoCorrectAI (rejecting_backend ''API error'') ''invalid command''
      (mockSettings\<lparr>activeProvider := ''ollama''\<rparr>)) =
     Inr (AIResponse (JStr ''Unable to analyze command.'') (Some (JStr ''invalid command''))) \<and>
   providers \<lparr>activeProvider = ''anthropic'', providers = Map.empty\<rparr> ''anthropic'' = None \<and>
   autoCorrectAI (rejecting_backend ''API error'') ''ls -la''
      \<lparr>activeProvider = ''anthropic'', providers = Map.empty\<rparr> =
     ([], Inr (AIResponse (JStr ''Unable to analyze command.'') (Some (JStr ''ls -la'')))) \<and>
   \<not> truthy_str (Some []) \<and>
   (\<exists>c. fst (autoCorrectAI unauthorized_backend ''ls -la''
      (mockSettings\<lparr>activeProvider := ''openai''\<rparr>)) = [c]) \<and>
   snd (correct_switch unauthorized_backend ''openai'' (correct_prompt ''ls -la'')
      (providers mockSettings ''openai'')) = Inl (Error ''API returned 401'') \<and>
   snd (autoCorrectAI unauthorized_backend ''ls -la'' (mockSettings\<lparr>activeProvider := ''openai''\<rparr>)) =
     Inr (AIResponse (JStr ''Unable to analyze command.'') (Some (JStr ''ls -la'')))"
proof -
  let ?rej = "rejecting_backend ''API error''"
  let ?o = "mockSettings\<lparr>activeProvider := ''ollama''\<rparr>"
  let ?a = "\<lparr>activeProvider = ''anthropic'', providers = Map.empty\<rparr>"
  let ?s = "mockSettings\<lparr>activeProvider := ''openai''\<rparr>"
  let ?cfg = "\<lparr>enabled = True, apiKey = Some [], baseUrl = None, model = ''gpt-4-turbo-preview''\<rparr>"
  let ?sw1 = "correct_switch ?rej (activeProvider ?o) (correct_prompt ''invalid command'')
      (providers ?o (activeProvider ?o))"
  let ?sw3 = "correct_switch unauthorized_backend (activeProvider ?s) (correct_prompt ''ls -la'')
      (providers ?s (activeProvider ?s))"
  note echo = autoCorrectAI_failure_echoes_command
  have t1: "snd ?sw1 = Inl (Error ''API error'')"
    by (simp add: correct_switch_def mockSettings_lookup rejected_fetch_outcomes)
  then have "?sw1 = (fst ?sw1, Inl (Error ''API error''))"
    by (metis prod.collapse)
  then have "autoCorrectAI ?rej ''invalid command'' ?o =
      (fst ?sw1, Inr (AIResponse (JStr ''Unable to analyze command.'') (Some (JStr ''invalid command''))))"
    by (rule echo [THEN conjunct2, THEN conjunct1, rule_format])
  then have r1: "snd (autoCorrectAI ?rej ''invalid command'' ?o) =
      Inr (AIResponse (JStr ''Unable to analyze command.'') (Some (JStr ''invalid command'')))"
    by simp
  have h2: "activeProvider ?a \<in> {''gemini'', ''openai'', ''grok'', ''anthropic'', ''ollama'', ''openrouter''} \<and>
      providers ?a (activeProvider ?a) = None"
    by simp
  have r2: "autoCorrectAI ?rej ''ls -la'' ?a =
      ([], Inr (AIResponse (JStr ''Unable to analyze command.'') (Some (JStr ''ls -la''))))"
    using h2 by (rule echo [THEN conjunct2, THEN conjunct2, THEN conjunct1, rule_format])
  have h3: "activeProvider ?s \<in> {''gemini'', ''openai'', ''grok'', ''anthropic'', ''openrouter''} \<and>
      providers ?s (activeProvider ?s) = Some ?cfg \<and> \<not> truthy_str (apiKey ?cfg)"
    by (simp add: mockSettings_lookup truthy_str_def)
  have r3: "\<exists>c. fst (autoCorrectAI unauthorized_backend ''ls -la'' ?s) = [c]"
    using h3 by (rule echo [THEN conjunct2, THEN conjunct2, THEN conjunct2, rule_format])
  have t3: "snd ?sw3 = Inl (Error ''API returned 401'')"
    by (simp add: correct_switch_def mockSettings_lookup callOpenAICompatible_def
        unauthorized_backend_def Let_def)
  then have "?sw3 = (fst ?sw3, Inl (Error ''API returned 401''))"
    by (metis prod.collapse)
  then have "autoCorrectAI unauthorized_backend ''ls -la'' ?s =
      (fst ?sw3, Inr (AIResponse (JStr ''Unable to analyze command.'') (Some (JStr ''ls -la''))))"
    by (rule echo [THEN conjunct2, THEN conjunct1, rule_format])
  then have r4: "snd (autoCorrectAI unauthorized_backend ''ls -la'' ?s) =
      Inr (AIResponse (JStr ''Unable to analyze command.'') (Some (JStr ''ls -la'')))"
    by simp
  from t1 r1 r2 r3 t3 r4 show ?thesis
    by (simp add: truthy_str_def)
qed


section \<open>The fallback of the normalizer on plain prose\<close>

lemma callOllama_replying:
  "snd (callOllama (replying_backend r) prompt (Some cfg)) = normalize_reply (replying_backend r) r"
  by (simp add: callOllama_def replying_backend_def Let_def and_then_def ollama_reply_def
      normalize_reply_def)

lemma askAI_ollama_replying:
  assumes "normalize_reply (replying_backend r) r = Inr v"
  shows "snd (askAI (replying_backend r) query historyContext
            (mockSettings\<lparr>activeProvider := ''ollama''\<rparr>)) = Inr v"
proof -
  have "snd (ask_switch (replying_backend r) ''ollama'' (ask_prompt query historyContext)
      \<lparr>enabled = True, apiKey = Some [], baseUrl = Some ''http://localhost:11434'',
        model = ''llama3''\<rparr>) = Inr v"
    using assms by (simp add: ask_switch_ollama callOllama_replying)
  then show ?thesis
    by (auto simp: askAI_def mockSettings_lookup split: prod.splits sum.splits)
qed

text \<open>
  Claim C7, as amended. Take a raw Ollama reply that is not empty after trimming, that
  contains no code fence, and no part of which \<^verbatim>\<open>JSON.parse\<close> reads as an object. The
  normalizer returns \<^verbatim>\<open>{markdown: text}\<close> with no \<^verbatim>\<open>suggestedCommand\<close>, where the text is
  the reply without the white space around it and without the characters that stand
  before its first opening brace or ASCII letter (a reply with neither is only
  trimmed). The text is the reply unchanged when the reply starts with an opening
  brace or an ASCII letter and does not end in white space.
\<close>

theorem prose_reply_normalized:
  "trim raw \<noteq> [] \<and> \<not> sublist fence raw \<and>
   (\<forall>s kvs. sublist s raw \<longrightarrow> JSON_parse env (Some (JStr s)) \<noteq> Inr (JObj kvs)) \<longrightarrow>
     normalize_reply env raw = Inr (AIResponse (JStr (strip_leading (trim raw))) None) \<and>
     ((is_alpha (hd raw) \<or> hd raw = CHR ''{'') \<and> \<not> is_ws (last raw) \<longrightarrow>
        normalize_reply env raw = Inr (AIResponse (JStr raw) None))"
proof (intro impI)
  assume h: "trim raw \<noteq> [] \<and> \<not> sublist fence raw \<and>
   (\<forall>s kvs. sublist s raw \<longrightarrow> JSON_parse env (Some (JStr s)) \<noteq> Inr (JObj kvs))"
  then have raw: "raw \<noteq> []"
    by (auto simp: trim_Nil)
  from h have first:
    "normalize_reply env raw = Inr (AIResponse (JStr (strip_leading (trim raw))) None)"
    by (intro normalize_reply_prose) blast+
  have second: "normalize_reply env raw = Inr (AIResponse (JStr raw) None)"
    if a: "(is_alpha (hd raw) \<or> hd raw = CHR ''{'') \<and> \<not> is_ws (last raw)"
  proof -
    from a have "\<not> is_ws (hd raw)"
      using is_alpha_not_ws brace_not_ws by auto
    with raw a have "trim raw = raw"
      by (intro trim_id) auto
    moreover from raw a have "strip_leading raw = raw"
      using strip_leading_alpha strip_leading_brace by blast
    ultimately show ?thesis
      using first by simp
  qed
  from first second
  show "normalize_reply env raw = Inr (AIResponse (JStr (strip_leading (trim raw))) None) \<and>
     ((is_alpha (hd raw) \<or> hd raw = CHR ''{'') \<and> \<not> is_ws (last raw) \<longrightarrow>
        normalize_reply env raw = Inr (AIResponse (JStr raw) None))"
    by blast
qed

text \<open>
  Instances: the test \<^verbatim>\<open>should handle plain text responses as fallback\<close>, whose reply
  starts with a letter and comes back unchanged; and the reply
  \<^verbatim>\<open>${HOME} is your home directory\<close>, which comes back from its brace on.
\<close>

theorem prose_reply_normalized_witness:
  "trim ''This is a plain text response without JSON'' \<noteq> [] \<and>
   \<not> sublist fence ''This is a plain text response without JSON'' \<and>
   (\<forall>s kvs. JSON_parse (replying_backend ''This is a plain text response without JSON'')
      (Some (JStr s)) \<noteq> Inr (JObj kvs)) \<and>
   is_alpha (hd ''This is a plain text response without JSON'') \<and>
   \<not> is_ws (last ''This is a plain text response without JSON'') \<and>
   normalize_reply (replying_backend ''This is a plain text response without JSON'')
     ''This is a plain text response without JSON'' =
     Inr (AIResponse (JStr ''This is a plain text response without JSON'') None) \<and>
   trim ''${HOME} is your home directory'' \<noteq> [] \<and>
   \<not> sublist fence ''${HOME} is your home directory'' \<and>
   (\<forall>s kvs. JSON_parse (replying_backend ''${HOME} is your home directory'')
      (Some (JStr s)) \<noteq> Inr (JObj kvs)) \<and>
   normalize_reply (replying_backend ''${HOME} is your home directory'')
     ''${HOME} is your home directory'' =
     Inr (AIResponse (JStr ''{HOME} is your home directory'') None)"
proof -
  let ?raw = "''This is a plain text response without JSON''"
  let ?env = "replying_backend ?raw"
  let ?home = "''${HOME} is your home directory''"
  let ?henv = "replying_backend ?home"
  have a: "(is_alpha (hd ?raw) \<or> hd ?raw = CHR ''{'') \<and> \<not> is_ws (last ?raw)"
    by (simp add: is_alpha_def is_ws_def)
  have t: "trim ?raw \<noteq> []"
    by (simp add: trim_def is_ws_def)
  have f: "\<not> sublist fence ?raw"
    by (simp add: fence_def sublist_Cons_right)
  have p: "\<forall>s kvs. JSON_parse ?env (Some (JStr s)) \<noteq> Inr (JObj kvs)"
    by (simp add: replying_backend_def)
  have r1: "normalize_reply ?env ?raw = Inr (AIResponse (JStr ?raw) None)"
    using prose_reply_normalized [of ?raw ?env] t f p a by blast
  have ht: "trim ?home = ?home"
    by (simp add: trim_def is_ws_def)
  have hf: "\<not> sublist fence ?home"
    by (simp add: fence_def sublist_Cons_right)
  have hp: "\<forall>s kvs. JSON_parse ?henv (Some (JStr s)) \<noteq> Inr (JObj kvs)"
    by (simp add: replying_backend_def)
  have hs: "strip_leading ?home = ''{HOME} is your home directory''"
    by (simp add: strip_leading_def is_alpha_def Let_def)
  have "normalize_reply ?henv ?home = Inr (AIResponse (JStr (strip_leading (trim ?home))) None)"
    using prose_reply_normalized [of ?home ?henv] ht hf hp by simp
  then have r2: "normalize_reply ?henv ?home =
      Inr (AIResponse (JStr ''{HOME} is your home directory'') None)"
    by (simp only: ht hs)
  have a': "is_alpha (hd ?raw) \<and> \<not> is_ws (last ?raw)"
    by (simp add: is_alpha_def is_ws_def)
  have ht': "trim ?home \<noteq> []"
    by (simp add: ht)
  from a' t f p r1 ht' hf hp r2 show ?thesis
    by blast
qed

text \<open>
  Claim C7 as stated fails on prose that does not start with a letter: the reply
  \<^verbatim>\<open>1. Run ls to list the files\<close> is non-empty plain prose without a brace or a code
  fence, \<^verbatim>\<open>JSON.parse\<close> reads no object, and the markdown that comes back has lost the
  leading \<^verbatim>\<open>1. \<close>.
\<close>

theorem prose_reply_changed_counterexample:
  "trim ''1. Run ls to list the files'' \<noteq> [] \<and>
   CHR ''{'' \<notin> set ''1. Run ls to list the files'' \<and>
   \<not> sublist fence ''1. Run ls to list the files'' \<and>
   (\<forall>s kvs. JSON_parse (replying_backend ''1. Run ls to list the files'')
      (Some (JStr s)) \<noteq> Inr (JObj kvs)) \<and>
   normalize_reply (replying_backend ''1. Run ls to list the files'')
     ''1. Run ls to list the files'' = Inr (AIResponse (JStr ''Run ls to list the files'') None) \<and>
   snd (askAI (replying_backend ''1. Run ls to list the files'') ''test'' ''context''
     (mockSettings\<lparr>activeProvider := ''ollama''\<rparr>)) =
     Inr (AIResponse (JStr ''Run ls to list the files'') None) \<and>
   AIResponse (JStr ''Run ls to list the files'') None \<noteq>
     AIResponse (JStr ''1. Run ls to list the files'') None"
proof -
  let ?raw = "''1. Run ls to list the files''"
  let ?env = "replying_backend ?raw"
  have t: "trim ?raw = ?raw"
    by (simp add: trim_def is_ws_def)
  have b: "CHR ''{'' \<notin> set ?raw"
    by simp
  have f: "\<not> sublist fence ?raw"
    by (simp add: fence_def sublist_Cons_right)
  have p: "\<forall>s kvs. JSON_parse ?env (Some (JStr s)) \<noteq> Inr (JObj kvs)"
    by (simp add: replying_backend_def)
  have s: "strip_leading ?raw = ''Run ls to list the files''"
    by (simp add: strip_leading_def is_alpha_def Let_def)
  have "normalize_reply ?env ?raw = Inr (AIResponse (JStr (strip_leading (trim ?raw))) None)"
    using f p by (intro normalize_reply_prose) (simp_all add: t)
  then have n: "normalize_reply ?env ?raw = Inr (AIResponse (JStr ''Run ls to list the files'') None)"
    by (simp only: t s)
  then have a: "snd (askAI ?env ''test'' ''context'' (mockSettings\<lparr>activeProvider := ''ollama''\<rparr>)) =
     Inr (AIResponse (JStr ''Run ls to list the files'') None)"
    by (rule askAI_ollama_replying)
  have d: "AIResponse (JStr ''Run ls to list the files'') None \<noteq> AIResponse (JStr ?raw) None"
    by (simp add: AIResponse_def)
  have t': "trim ?raw \<noteq> []"
    by (simp add: t)
  from t' b f p n a d show ?thesis
    by blast
qed

end
